theory Spec2Isabelle
  imports Main "HOL-Library.Char_ord" "HOL-Library.List_Lexorder"
begin

section \<open>Python values, dictionaries and strings\<close>

text \<open>
  The agent moves JSON-like Python values around: parsed tool arguments, tool results,
  database rows. A dictionary is an association list in insertion order with string keys
  (JSON object keys are strings). A string is a list of characters with code points below
  256, one \<^typ>\<open>char\<close> per code point; \<open>of_char\<close> is the code point.
\<close>

datatype pyval =
    PNone
  | PBool bool
  | PInt int
  | PStr string
  | PList "pyval list"
  | PDict "(string \<times> pyval) list"

type_synonym pydict = "(string \<times> pyval) list"

text \<open>The exceptions that can leave the tool dispatcher and the agent loop uncaught.\<close>

datatype py_error = KeyError string | TypeError

text \<open>\<^verbatim>\<open>key in d\<close>, \<^verbatim>\<open>d.get(key)\<close>, \<^verbatim>\<open>d[key] = v\<close> and \<^verbatim>\<open>{**base, **extra}\<close>.\<close>

definition dict_has :: "pydict \<Rightarrow> string \<Rightarrow> bool" where
  "dict_has d k = (map_of d k \<noteq> None)"

definition dict_get :: "pydict \<Rightarrow> string \<Rightarrow> pyval option" where
  "dict_get d k = map_of d k"

definition dict_get_default :: "pydict \<Rightarrow> string \<Rightarrow> pyval \<Rightarrow> pyval" where
  "dict_get_default d k dflt = (case map_of d k of None \<Rightarrow> dflt | Some v \<Rightarrow> v)"

fun dict_set :: "pydict \<Rightarrow> string \<Rightarrow> pyval \<Rightarrow> pydict" where
  "dict_set [] k v = [(k, v)]"
| "dict_set ((k', v') # d) k v = (if k' = k then (k, v) # d else (k', v') # dict_set d k v)"

definition dict_merge :: "pydict \<Rightarrow> pydict \<Rightarrow> pydict" where
  "dict_merge base extra = fold (\<lambda>(k, v) d. dict_set d k v) extra base"

text \<open>\<^verbatim>\<open>x[key]\<close> with a string key: a missing key raises KeyError, a subject that is
  not a dictionary raises TypeError.\<close>

fun subscript :: "pyval \<Rightarrow> string \<Rightarrow> py_error + pyval" where
  "subscript (PDict d) k = (case map_of d k of None \<Rightarrow> Inl (KeyError k) | Some v \<Rightarrow> Inr v)"
| "subscript _ k = Inl TypeError"

text \<open>Truth value of a Python object, as \<^verbatim>\<open>if x\<close> and \<^verbatim>\<open>x or y\<close> test it.\<close>

fun truthy :: "pyval \<Rightarrow> bool" where
  "truthy PNone = False"
| "truthy (PBool b) = b"
| "truthy (PInt i) = (i \<noteq> 0)"
| "truthy (PStr s) = (s \<noteq> [])"
| "truthy (PList xs) = (xs \<noteq> [])"
| "truthy (PDict d) = (d \<noteq> [])"

text \<open>The slice \<^verbatim>\<open>xs[:n]\<close>: a negative bound counts from the end.\<close>

definition py_take :: "int \<Rightarrow> 'a list \<Rightarrow> 'a list" where
  "py_take n xs = (if 0 \<le> n then take (nat n) xs else take (length xs - nat (- n)) xs)"

text \<open>
  Case mapping and trimming. \<^verbatim>\<open>str.upper()\<close> leaves the range of \<^typ>\<open>char\<close> for two
  characters and yields two characters for one, so the result is given as code points:
  a..z and U+00E0..U+00FE (without the division sign U+00F7) move down by 32, the micro sign
  U+00B5 becomes U+039C, the sharp s U+00DF becomes SS, and U+00FF becomes U+0178.
  \<^verbatim>\<open>str.lower()\<close> moves A..Z and U+00C0..U+00DE (without the multiplication sign U+00D7)
  up by 32.
\<close>

definition codepoints :: "string \<Rightarrow> nat list" where
  "codepoints s = map of_char s"

definition upper_char :: "char \<Rightarrow> nat list" where
  "upper_char c =
     (let n = of_char c :: nat
      in if 97 \<le> n \<and> n \<le> 122 then [n - 32]
         else if n = 181 then [924]
         else if n = 223 then [83, 83]
         else if 224 \<le> n \<and> n \<le> 254 \<and> n \<noteq> 247 then [n - 32]
         else if n = 255 then [376]
         else [n])"

definition lower_char :: "char \<Rightarrow> nat" where
  "lower_char c =
     (let n = of_char c :: nat
      in if 65 \<le> n \<and> n \<le> 90 then n + 32
         else if 192 \<le> n \<and> n \<le> 222 \<and> n \<noteq> 215 then n + 32
         else n)"

definition upper :: "string \<Rightarrow> nat list" where
  "upper s = concat (map upper_char s)"

definition lower :: "string \<Rightarrow> nat list" where
  "lower s = map lower_char s"

text \<open>The characters \<^verbatim>\<open>str.strip()\<close> removes: tab, line feed, vertical tab, form feed,
  carriage return, the four separators U+001C..U+001F, the space, the next-line control
  U+0085 and the no-break space U+00A0.\<close>

definition is_space :: "char \<Rightarrow> bool" where
  "is_space c = (c \<in> set [CHR 0x09, CHR 0x0A, CHR 0x0B, CHR 0x0C, CHR 0x0D,
                          CHR 0x1C, CHR 0x1D, CHR 0x1E, CHR 0x1F, CHR 0x20,
                          CHR 0x85, CHR 0xA0])"

definition strip :: "string \<Rightarrow> string" where
  "strip s = rev (dropWhile is_space (rev (dropWhile is_space s)))"

definition startswith :: "'a list \<Rightarrow> 'a list \<Rightarrow> bool" where
  "startswith s p = (take (length p) s = p)"

text \<open>\<^verbatim>\<open>sub in s\<close> on strings.\<close>

fun contains :: "'a list \<Rightarrow> 'a list \<Rightarrow> bool" where
  "contains [] sub = (sub = [])"
| "contains (c # cs) sub = (startswith (c # cs) sub \<or> contains cs sub)"

function show_nat :: "nat \<Rightarrow> string" where
  "show_nat n = (if n < 10 then [''0123456789'' ! n]
                 else show_nat (n div 10) @ [''0123456789'' ! (n mod 10)])"
  by pat_completeness auto
termination
  by (relation "measure id") auto

declare show_nat.simps [simp del]

definition show_int :: "int \<Rightarrow> string" where
  "show_int i = (if i < 0 then CHR ''-'' # show_nat (nat (- i)) else show_nat (nat i))"

text \<open>
  The host runtime: \<^verbatim>\<open>json.loads\<close> (\<open>None\<close> stands for JSONDecodeError),
  \<^verbatim>\<open>json.dumps(_, default=str)\<close>, and the text Python prints for a list or a dictionary.
  They are library code, so the agent is verified for every such runtime.
\<close>

record runtime =
  json_loads :: "string \<Rightarrow> pyval option"
  json_dumps :: "pyval \<Rightarrow> string"
  repr_container :: "pyval \<Rightarrow> string"

definition py_str :: "runtime \<Rightarrow> pyval \<Rightarrow> string" where
  "py_str rt v =
     (case v of
        PStr s \<Rightarrow> s
      | PInt i \<Rightarrow> show_int i
      | PBool b \<Rightarrow> (if b then ''True'' else ''False'')
      | PNone \<Rightarrow> ''None''
      | _ \<Rightarrow> repr_container rt v)"

fun py_type_name :: "pyval \<Rightarrow> string" where
  "py_type_name PNone = ''NoneType''"
| "py_type_name (PBool b) = ''bool''"
| "py_type_name (PInt i) = ''int''"
| "py_type_name (PStr s) = ''str''"
| "py_type_name (PList xs) = ''list''"
| "py_type_name (PDict d) = ''dict''"

definition opt_str :: "string option \<Rightarrow> pyval" where
  "opt_str x = (case x of None \<Rightarrow> PNone | Some s \<Rightarrow> PStr s)"

section \<open>The database collaborator\<close>

text \<open>
  A \<open>database\<close> is Superset's Database object as the tools use it. Every method may
  raise; \<open>Inl msg\<close> is an exception whose \<^verbatim>\<open>str(ex)\<close> is \<open>msg\<close>. \<open>run_query\<close>
  is \<^verbatim>\<open>database.execute(sql, options)\<close> followed by \<^verbatim>\<open>_extract_result_data\<close>: the rows
  and column names the driver's result object holds. \<open>db_lookup\<close> is the query
  \<^verbatim>\<open>db.session.query(Database).filter_by(id=database_id).first()\<close>.
\<close>

record query_options =
  qo_catalog :: "string option"
  qo_schema :: pyval
  qo_limit :: int

record database =
  db_engine_spec :: "string option"
  get_all_schema_names :: "string option \<Rightarrow> string + string list"
  get_all_table_names_in_schema ::
    "string option \<Rightarrow> pyval \<Rightarrow> string + (string \<times> string option \<times> string option) list"
  get_columns :: "pyval \<Rightarrow> pyval \<Rightarrow> string option \<Rightarrow> string + pydict list"
  run_query :: "string \<Rightarrow> query_options \<Rightarrow> string + (pyval list \<times> string list)"

type_synonym db_lookup = "int \<Rightarrow> database option"

text \<open>The collaborator calls a tool makes, in order; the tools return them next to their
  result so that "the database is never reached" can be stated.\<close>

datatype db_call =
    LookupDatabase int
  | GetAllSchemaNames
  | GetAllTableNames
  | GetColumns
  | RunQuery string query_options

section \<open>Tool execution functions\<close>

definition error_result :: "string \<Rightarrow> pydict" where
  "error_result msg = [(''error'', PStr msg)]"

text \<open>\<^verbatim>\<open>_get_database\<close> raises ValueError with this text when no row matches.\<close>

definition not_found_message :: "int \<Rightarrow> string" where
  "not_found_message database_id = ''Database with id='' @ show_int database_id @ '' not found''"

definition tool_list_schemas :: "db_lookup \<Rightarrow> int \<Rightarrow> string option \<Rightarrow> pydict \<times> db_call list" where
  "tool_list_schemas dbs database_id catalog =
     (case dbs database_id of
        None \<Rightarrow> (error_result (not_found_message database_id), [LookupDatabase database_id])
      | Some database \<Rightarrow>
          (case get_all_schema_names database catalog of
             Inl ex \<Rightarrow> (error_result ex, [LookupDatabase database_id, GetAllSchemaNames])
           | Inr schemas \<Rightarrow>
               ([(''schemas'', PList (map PStr (sort schemas)))],
                [LookupDatabase database_id, GetAllSchemaNames])))"

definition tool_list_tables ::
  "db_lookup \<Rightarrow> int \<Rightarrow> pyval \<Rightarrow> string option \<Rightarrow> pydict \<times> db_call list" where
  "tool_list_tables dbs database_id schema_name catalog =
     (case dbs database_id of
        None \<Rightarrow> (error_result (not_found_message database_id), [LookupDatabase database_id])
      | Some database \<Rightarrow>
          (case get_all_table_names_in_schema database catalog schema_name of
             Inl ex \<Rightarrow> (error_result ex, [LookupDatabase database_id, GetAllTableNames])
           | Inr tables \<Rightarrow>
               ([(''tables'', PList (map PStr (sort (map fst tables)))),
                 (''schema'', schema_name)],
                [LookupDatabase database_id, GetAllTableNames])))"

definition column_info :: "runtime \<Rightarrow> pydict \<Rightarrow> pyval" where
  "column_info rt col =
     PDict
       [(''name'', (let n = dict_get_default col ''column_name'' PNone
                    in if truthy n then n else dict_get_default col ''name'' (PStr ''unknown''))),
        (''type'', PStr (py_str rt (dict_get_default col ''type'' (PStr ''unknown'')))),
        (''nullable'', dict_get_default col ''nullable'' (PBool True))]"

definition tool_get_table_columns ::
  "runtime \<Rightarrow> db_lookup \<Rightarrow> int \<Rightarrow> pyval \<Rightarrow> pyval \<Rightarrow> string option \<Rightarrow> pydict \<times> db_call list" where
  "tool_get_table_columns rt dbs database_id table_name schema_name catalog =
     (case dbs database_id of
        None \<Rightarrow> (error_result (not_found_message database_id), [LookupDatabase database_id])
      | Some database \<Rightarrow>
          (case get_columns database table_name schema_name catalog of
             Inl ex \<Rightarrow> (error_result ex, [LookupDatabase database_id, GetColumns])
           | Inr columns \<Rightarrow>
               ([(''table'', table_name), (''schema'', schema_name),
                 (''columns'', PList (map (column_info rt) columns))],
                [LookupDatabase database_id, GetColumns])))"

definition engine_name :: "database \<Rightarrow> string" where
  "engine_name database = (case db_engine_spec database of None \<Rightarrow> [] | Some n \<Rightarrow> n)"

definition is_mssql :: "string \<Rightarrow> bool" where
  "is_mssql db_engine =
     (contains (lower db_engine) (codepoints ''mssql'') \<or> contains db_engine ''MSSql'')"

definition sample_sql :: "runtime \<Rightarrow> string \<Rightarrow> pyval \<Rightarrow> pyval \<Rightarrow> int \<Rightarrow> string" where
  "sample_sql rt db_engine table_name schema_name max_rows =
     (if is_mssql db_engine
      then ''SELECT TOP '' @ show_int max_rows @ '' * FROM ['' @ py_str rt schema_name
             @ ''].['' @ py_str rt table_name @ '']''
      else ''SELECT * FROM '' @ [CHR 0x22] @ py_str rt schema_name @ [CHR 0x22] @ ''.''
             @ [CHR 0x22] @ py_str rt table_name @ [CHR 0x22] @ '' LIMIT '' @ show_int max_rows)"

definition tool_sample_table_data ::
  "runtime \<Rightarrow> db_lookup \<Rightarrow> int \<Rightarrow> pyval \<Rightarrow> pyval \<Rightarrow> string option \<Rightarrow> int
     \<Rightarrow> pydict \<times> db_call list" where
  "tool_sample_table_data rt dbs database_id table_name schema_name catalog max_rows =
     (case dbs database_id of
        None \<Rightarrow> (error_result (not_found_message database_id), [LookupDatabase database_id])
      | Some database \<Rightarrow>
          (let sql = sample_sql rt (engine_name database) table_name schema_name max_rows;
               options = \<lparr>qo_catalog = catalog, qo_schema = schema_name, qo_limit = max_rows\<rparr>;
               calls = [LookupDatabase database_id, RunQuery sql options]
           in case run_query database sql options of
                Inl ex \<Rightarrow> (error_result ex, calls)
              | Inr (rows, columns) \<Rightarrow>
                  (let rows' = py_take max_rows rows
                   in ([(''table'', table_name), (''schema'', schema_name),
                        (''row_count'', PInt (int (length rows'))), (''data'', PList rows')],
                       calls))))"

definition distinct_sql :: "runtime \<Rightarrow> string \<Rightarrow> pyval \<Rightarrow> pyval \<Rightarrow> pyval \<Rightarrow> int \<Rightarrow> string" where
  "distinct_sql rt db_engine table_name schema_name column_name max_values =
     (if is_mssql db_engine
      then ''SELECT DISTINCT TOP '' @ show_int max_values @ '' ['' @ py_str rt column_name @ ''] ''
             @ ''FROM ['' @ py_str rt schema_name @ ''].['' @ py_str rt table_name @ ''] ''
             @ ''WHERE ['' @ py_str rt column_name @ ''] IS NOT NULL ''
             @ ''ORDER BY ['' @ py_str rt column_name @ '']''
      else ''SELECT DISTINCT '' @ [CHR 0x22] @ py_str rt column_name @ [CHR 0x22] @ '' ''
             @ ''FROM '' @ [CHR 0x22] @ py_str rt schema_name @ [CHR 0x22] @ ''.''
             @ [CHR 0x22] @ py_str rt table_name @ [CHR 0x22] @ '' ''
             @ ''WHERE '' @ [CHR 0x22] @ py_str rt column_name @ [CHR 0x22] @ '' IS NOT NULL ''
             @ ''ORDER BY '' @ [CHR 0x22] @ py_str rt column_name @ [CHR 0x22]
             @ '' LIMIT '' @ show_int max_values)"

text \<open>\<^verbatim>\<open>list(row.values())[0] if isinstance(row, dict) else row\<close>: an empty dictionary
  raises IndexError, which the tool's handler turns into an error result.\<close>

fun first_cell :: "pyval \<Rightarrow> string + pyval" where
  "first_cell (PDict []) = Inl ''list index out of range''"
| "first_cell (PDict (kv # d)) = Inr (snd kv)"
| "first_cell v = Inr v"

fun collect_values :: "runtime \<Rightarrow> pyval list \<Rightarrow> string + pyval list" where
  "collect_values rt [] = Inr []"
| "collect_values rt (row # rows) =
     (case first_cell row of
        Inl ex \<Rightarrow> Inl ex
      | Inr val \<Rightarrow>
          (case collect_values rt rows of
             Inl ex \<Rightarrow> Inl ex
           | Inr vals \<Rightarrow> Inr ((if val = PNone then PNone else PStr (py_str rt val)) # vals)))"

definition tool_get_distinct_values ::
  "runtime \<Rightarrow> db_lookup \<Rightarrow> int \<Rightarrow> pyval \<Rightarrow> pyval \<Rightarrow> pyval \<Rightarrow> string option \<Rightarrow> int
     \<Rightarrow> pydict \<times> db_call list" where
  "tool_get_distinct_values rt dbs database_id table_name schema_name column_name catalog max_values =
     (case dbs database_id of
        None \<Rightarrow> (error_result (not_found_message database_id), [LookupDatabase database_id])
      | Some database \<Rightarrow>
          (let sql = distinct_sql rt (engine_name database) table_name schema_name column_name
                       max_values;
               options = \<lparr>qo_catalog = catalog, qo_schema = schema_name, qo_limit = max_values\<rparr>;
               calls = [LookupDatabase database_id, RunQuery sql options]
           in case run_query database sql options of
                Inl ex \<Rightarrow> (error_result ex, calls)
              | Inr (rows, columns) \<Rightarrow>
                  (case collect_values rt (py_take max_values rows) of
                     Inl ex \<Rightarrow> (error_result ex, calls)
                   | Inr vals \<Rightarrow>
                       ([(''table'', table_name), (''column'', column_name),
                         (''distinct_count'', PInt (int (length vals))),
                         (''values'', PList vals)],
                        calls))))"

definition policy_message :: string where
  "policy_message = ''Only SELECT and WITH (CTE) queries are allowed for safety''"

text \<open>The safety check of \<^verbatim>\<open>tool_execute_sql\<close> on the query text.\<close>

definition rejected_by_policy :: "string \<Rightarrow> bool" where
  "rejected_by_policy sql =
     (let sql_stripped = upper (strip sql)
      in \<not> startswith sql_stripped (codepoints ''SELECT'')
         \<and> \<not> startswith sql_stripped (codepoints ''WITH''))"

definition attribute_error_message :: "pyval \<Rightarrow> string \<Rightarrow> string" where
  "attribute_error_message v attr =
     [CHR 0x27] @ py_type_name v @ [CHR 0x27] @ '' object has no attribute ''
       @ [CHR 0x27] @ attr @ [CHR 0x27]"

definition tool_execute_sql ::
  "db_lookup \<Rightarrow> int \<Rightarrow> pyval \<Rightarrow> string option \<Rightarrow> string option \<Rightarrow> int \<Rightarrow> pydict \<times> db_call list" where
  "tool_execute_sql dbs database_id sql schema_name catalog max_rows =
     (case sql of
        PStr s \<Rightarrow>
          (if rejected_by_policy s then ([(''error'', PStr policy_message)], [])
           else
             (case dbs database_id of
                None \<Rightarrow>
                  ([(''error'', PStr (not_found_message database_id)), (''sql'', sql)],
                   [LookupDatabase database_id])
              | Some database \<Rightarrow>
                  (let options = \<lparr>qo_catalog = catalog, qo_schema = opt_str schema_name,
                                  qo_limit = max_rows\<rparr>;
                       calls = [LookupDatabase database_id, RunQuery s options]
                   in case run_query database s options of
                        Inl ex \<Rightarrow> ([(''error'', PStr ex), (''sql'', sql)], calls)
                      | Inr (rows, columns) \<Rightarrow>
                          (let rows' = py_take max_rows rows
                           in ([(''columns'', PList (map PStr columns)),
                                (''row_count'', PInt (int (length rows'))),
                                (''data'', PList rows')],
                               calls)))))
      | _ \<Rightarrow> ([(''error'', PStr (attribute_error_message sql ''strip'')), (''sql'', sql)], []))"

section \<open>Tool dispatcher\<close>

definition FRONTEND_ACTIONS :: "string set" where
  "FRONTEND_ACTIONS = {''set_editor_sql''}"

text \<open>The execution context the loop injects into every dispatch.\<close>

record tool_context =
  database_id :: int
  schema_name :: "string option"
  catalog :: "string option"
  max_sample_rows :: int

text \<open>
  \<^verbatim>\<open>execute_tool\<close>. The subscripts \<^verbatim>\<open>arguments["..."]\<close> are evaluated by the dispatcher, outside
  the handlers of the tool functions, left to right. \<^verbatim>\<open>tool_get_distinct_values\<close> and
  \<^verbatim>\<open>tool_execute_sql\<close> are called without a row bound and so run with their default of 50.
\<close>

definition execute_tool ::
  "runtime \<Rightarrow> db_lookup \<Rightarrow> string \<Rightarrow> pyval \<Rightarrow> tool_context \<Rightarrow> py_error + (pydict \<times> db_call list)" where
  "execute_tool rt dbs tool_name arguments ctx =
     (if tool_name \<in> FRONTEND_ACTIONS then
        (case arguments of
           PDict args \<Rightarrow> Inr (dict_merge [(''action'', PStr tool_name)] args, [])
         | _ \<Rightarrow> Inl TypeError)
      else if tool_name = ''list_schemas'' then
        Inr (tool_list_schemas dbs (database_id ctx) (catalog ctx))
      else if tool_name = ''list_tables'' then
        (case subscript arguments ''schema_name'' of
           Inl e \<Rightarrow> Inl e
         | Inr sn \<Rightarrow> Inr (tool_list_tables dbs (database_id ctx) sn (catalog ctx)))
      else if tool_name = ''get_table_columns'' then
        (case subscript arguments ''table_name'' of
           Inl e \<Rightarrow> Inl e
         | Inr tn \<Rightarrow>
             (case subscript arguments ''schema_name'' of
                Inl e \<Rightarrow> Inl e
              | Inr sn \<Rightarrow> Inr (tool_get_table_columns rt dbs (database_id ctx) tn sn (catalog ctx))))
      else if tool_name = ''sample_table_data'' then
        (case subscript arguments ''table_name'' of
           Inl e \<Rightarrow> Inl e
         | Inr tn \<Rightarrow>
             (case subscript arguments ''schema_name'' of
                Inl e \<Rightarrow> Inl e
              | Inr sn \<Rightarrow>
                  Inr (tool_sample_table_data rt dbs (database_id ctx) tn sn (catalog ctx)
                         (max_sample_rows ctx))))
      else if tool_name = ''get_distinct_values'' then
        (case subscript arguments ''table_name'' of
           Inl e \<Rightarrow> Inl e
         | Inr tn \<Rightarrow>
             (case subscript arguments ''schema_name'' of
                Inl e \<Rightarrow> Inl e
              | Inr sn \<Rightarrow>
                  (case subscript arguments ''column_name'' of
                     Inl e \<Rightarrow> Inl e
                   | Inr cn \<Rightarrow>
                       Inr (tool_get_distinct_values rt dbs (database_id ctx) tn sn cn
                              (catalog ctx) 50))))
      else if tool_name = ''execute_sql'' then
        (case subscript arguments ''sql'' of
           Inl e \<Rightarrow> Inl e
         | Inr sql \<Rightarrow>
             Inr (tool_execute_sql dbs (database_id ctx) sql (schema_name ctx) (catalog ctx) 50))
      else Inr (error_result (''Unknown tool: '' @ tool_name), []))"

section \<open>Result summarizer\<close>

fun py_len :: "pyval \<Rightarrow> py_error + nat" where
  "py_len (PStr s) = Inr (length s)"
| "py_len (PList xs) = Inr (length xs)"
| "py_len (PDict d) = Inr (length d)"
| "py_len _ = Inl TypeError"

fun join :: "string \<Rightarrow> string list \<Rightarrow> string" where
  "join sep [] = []"
| "join sep [x] = x"
| "join sep (x # y # ys) = x @ sep @ join sep (y # ys)"

fun str_items :: "pyval list \<Rightarrow> py_error + string list" where
  "str_items [] = Inr []"
| "str_items (PStr s # vs) = (case str_items vs of Inl e \<Rightarrow> Inl e | Inr ss \<Rightarrow> Inr (s # ss))"
| "str_items (v # vs) = Inl TypeError"

text \<open>\<^verbatim>\<open>', '.join(schemas[:5])\<close>: a string is joined character by character, a list must
  hold strings only, anything else cannot be sliced.\<close>

fun join_first5 :: "pyval \<Rightarrow> py_error + string" where
  "join_first5 (PStr s) = Inr (join '', '' (map (\<lambda>c. [c]) (take 5 s)))"
| "join_first5 (PList xs) =
     (case str_items (take 5 xs) of Inl e \<Rightarrow> Inl e | Inr ss \<Rightarrow> Inr (join '', '' ss))"
| "join_first5 _ = Inl TypeError"

text \<open>\<^verbatim>\<open>result['error'][:100]\<close> inside the format string.\<close>

fun error_text :: "runtime \<Rightarrow> pyval \<Rightarrow> py_error + string" where
  "error_text rt (PStr s) = Inr (take 100 s)"
| "error_text rt (PList xs) = Inr (py_str rt (PList (take 100 xs)))"
| "error_text rt _ = Inl TypeError"

text \<open>\<^verbatim>\<open>_summarize_result\<close>: the keys are tested in the source's order.\<close>

definition summarize_result :: "runtime \<Rightarrow> pydict \<Rightarrow> py_error + string" where
  "summarize_result rt result =
     (case dict_get result ''error'' of
        Some err \<Rightarrow>
          (case error_text rt err of Inl e \<Rightarrow> Inl e | Inr t \<Rightarrow> Inr (''Error: '' @ t))
      | None \<Rightarrow>
     (case dict_get result ''schemas'' of
        Some schemas \<Rightarrow>
          (case py_len schemas of
             Inl e \<Rightarrow> Inl e
           | Inr n \<Rightarrow>
               (case join_first5 schemas of
                  Inl e \<Rightarrow> Inl e
                | Inr joined \<Rightarrow>
                    Inr (''Found '' @ show_nat n @ '' schemas: '' @ joined
                           @ (if n > 5 then ''...'' else []))))
      | None \<Rightarrow>
     (case dict_get result ''tables'' of
        Some tables \<Rightarrow>
          (case py_len tables of
             Inl e \<Rightarrow> Inl e
           | Inr n \<Rightarrow>
               Inr (''Found '' @ show_nat n @ '' tables in ''
                      @ py_str rt (dict_get_default result ''schema'' (PStr ''?''))))
      | None \<Rightarrow>
     (case dict_get result ''columns'' of
        Some cols \<Rightarrow>
          (case py_len cols of
             Inl e \<Rightarrow> Inl e
           | Inr n \<Rightarrow>
               Inr (''Table '' @ py_str rt (dict_get_default result ''table'' (PStr ''?''))
                      @ '': '' @ show_nat n @ '' columns''))
      | None \<Rightarrow>
     (case dict_get result ''data'' of
        Some rows \<Rightarrow>
          Inr (py_str rt (dict_get_default result ''row_count'' (PStr ''?'')) @ '' rows returned'')
      | None \<Rightarrow>
     (case dict_get result ''values'' of
        Some vals \<Rightarrow>
          (case py_len vals of
             Inl e \<Rightarrow> Inl e
           | Inr n \<Rightarrow>
               Inr (show_nat n @ '' distinct values in ''
                      @ py_str rt (dict_get_default result ''column'' (PStr ''?''))))
      | None \<Rightarrow>
     (case dict_get result ''action'' of
        Some act \<Rightarrow> Inr (''Frontend action: '' @ py_str rt act)
      | None \<Rightarrow> Inr (take 100 (json_dumps rt (PDict result))))))))))"

section \<open>Provider adapter and conversation data\<close>

record tool_call =
  tc_id :: string
  tc_name :: string
  tc_arguments :: string

text \<open>The assistant message of a completion: \<open>am_content = None\<close> and
  \<open>am_tool_calls = None\<close> mean that the key is absent.\<close>

record assistant_message =
  am_role :: string
  am_content :: "pyval option"
  am_tool_calls :: "tool_call list option"

text \<open>A per-round usage object; a missing field is \<open>None\<close>.\<close>

record usage_obj =
  uo_prompt_tokens :: "int option"
  uo_completion_tokens :: "int option"
  uo_total_tokens :: "int option"

record completion =
  c_message :: assistant_message
  c_finish_reason :: string
  c_usage :: "usage_obj option"

record chat_message =
  cm_role :: string
  cm_content :: string

datatype llm_message =
    ChatMsg string string
  | AssistantMsg assistant_message
  | ToolMsg string string

record usage =
  prompt_tokens :: int
  completion_tokens :: int
  total_tokens :: int

record step =
  step_type :: string
  step_tool :: string
  step_args :: pyval
  step_result_summary :: string

text \<open>The dictionary \<^verbatim>\<open>run_agent\<close> returns: \<open>rr_error\<close> tells whether the key
  \<^verbatim>\<open>error\<close> is there, \<open>rr_warning\<close> holds the value of \<^verbatim>\<open>warning\<close> when it is.\<close>

record run_result =
  rr_response :: pyval
  rr_actions :: "pydict list"
  rr_steps :: "step list"
  rr_usage :: usage
  rr_error :: bool
  rr_warning :: "string option"

text \<open>
  What the loop works in: the runtime, the databases, and the provider adapter
  \<^verbatim>\<open>create_chat_completion\<close>. The adapter is given the number of calls made before in this
  invocation and the message history; \<open>Inl msg\<close> is a raised exception with that text.
\<close>

record agent_env =
  env_rt :: runtime
  env_dbs :: db_lookup
  create_chat_completion :: "nat \<Rightarrow> llm_message list \<Rightarrow> string + completion"

text \<open>
  The local variables of one invocation. The last three fields are not in the source:
  they record the completions received, the number of adapter calls and the collaborator
  calls, so that properties of a run can speak about them.
\<close>

record agent_state =
  llm_messages :: "llm_message list"
  steps :: "step list"
  actions :: "pydict list"
  total_usage :: usage
  received :: "completion list"
  provider_calls :: nat
  db_calls :: "db_call list"

definition field_or_zero :: "int option \<Rightarrow> int" where
  "field_or_zero x = (case x of None \<Rightarrow> 0 | Some n \<Rightarrow> n)"

text \<open>\<^verbatim>\<open>usage = result.get("usage", {})\<close> and the three additions.\<close>

definition add_usage :: "usage \<Rightarrow> usage_obj option \<Rightarrow> usage" where
  "add_usage acc u =
     (case u of
        None \<Rightarrow> acc
      | Some uo \<Rightarrow>
          \<lparr>prompt_tokens = prompt_tokens acc + field_or_zero (uo_prompt_tokens uo),
           completion_tokens = completion_tokens acc + field_or_zero (uo_completion_tokens uo),
           total_tokens = total_tokens acc + field_or_zero (uo_total_tokens uo)\<rparr>)"

definition zero_usage :: usage where
  "zero_usage = \<lparr>prompt_tokens = 0, completion_tokens = 0, total_tokens = 0\<rparr>"

definition initial_messages :: "string \<Rightarrow> chat_message list \<Rightarrow> llm_message list" where
  "initial_messages sys_prompt messages =
     ChatMsg ''system'' sys_prompt # map (\<lambda>m. ChatMsg (cm_role m) (cm_content m)) messages"

definition initial_state :: "string \<Rightarrow> chat_message list \<Rightarrow> agent_state" where
  "initial_state sys_prompt messages =
     \<lparr>llm_messages = initial_messages sys_prompt messages, steps = [], actions = [],
      total_usage = zero_usage, received = [], provider_calls = 0, db_calls = []\<rparr>"

section \<open>The agent loop, batch mode\<close>

text \<open>\<^verbatim>\<open>json.loads\<close> guarded by \<^verbatim>\<open>except json.JSONDecodeError: tool_args = {}\<close>.\<close>

definition parse_tool_args :: "runtime \<Rightarrow> string \<Rightarrow> pyval" where
  "parse_tool_args rt text = (case json_loads rt text of None \<Rightarrow> PDict [] | Some v \<Rightarrow> v)"

text \<open>\<^verbatim>\<open>{"type": tool_name, **tool_args}\<close>.\<close>

definition make_action :: "string \<Rightarrow> pyval \<Rightarrow> py_error + pydict" where
  "make_action tool_name tool_args =
     (case tool_args of
        PDict args \<Rightarrow> Inr (dict_merge [(''type'', PStr tool_name)] args)
      | _ \<Rightarrow> Inl TypeError)"

definition make_step :: "string \<Rightarrow> pyval \<Rightarrow> string \<Rightarrow> step" where
  "make_step tool_name tool_args summary =
     \<lparr>step_type = ''tool_call'', step_tool = tool_name, step_args = tool_args,
      step_result_summary = summary\<rparr>"

text \<open>The body of \<^verbatim>\<open>for tool_call in tool_calls\<close>. Nothing here is inside a handler, so an
  exception of the dispatcher, of the action construction or of the summarizer leaves the
  loop.\<close>

definition handle_tool_call ::
  "agent_env \<Rightarrow> tool_context \<Rightarrow> tool_call \<Rightarrow> agent_state \<Rightarrow> py_error + agent_state" where
  "handle_tool_call env ctx tc st =
     (let tool_name = tc_name tc;
          tool_args = parse_tool_args (env_rt env) (tc_arguments tc)
      in case execute_tool (env_rt env) (env_dbs env) tool_name tool_args ctx of
           Inl e \<Rightarrow> Inl e
         | Inr (tool_result, calls) \<Rightarrow>
             (case (if tool_name \<in> FRONTEND_ACTIONS
                    then (case make_action tool_name tool_args of
                            Inl e \<Rightarrow> Inl e
                          | Inr a \<Rightarrow> Inr (actions st @ [a]))
                    else Inr (actions st)) of
                Inl e \<Rightarrow> Inl e
              | Inr actions' \<Rightarrow>
                  (case summarize_result (env_rt env) tool_result of
                     Inl e \<Rightarrow> Inl e
                   | Inr summary \<Rightarrow>
                       Inr (st\<lparr>actions := actions',
                               steps := steps st @ [make_step tool_name tool_args summary],
                               llm_messages := llm_messages st
                                 @ [ToolMsg (tc_id tc) (json_dumps (env_rt env) (PDict tool_result))],
                               db_calls := db_calls st @ calls\<rparr>))))"

fun run_tool_calls ::
  "agent_env \<Rightarrow> tool_context \<Rightarrow> tool_call list \<Rightarrow> agent_state \<Rightarrow> py_error + agent_state" where
  "run_tool_calls env ctx [] st = Inr st"
| "run_tool_calls env ctx (tc # tcs) st =
     (case handle_tool_call env ctx tc st of
        Inl e \<Rightarrow> Inl e
      | Inr st' \<Rightarrow> run_tool_calls env ctx tcs st')"

text \<open>\<^verbatim>\<open>tool_calls and finish_reason in ("tool_calls", "stop")\<close>.\<close>

definition requested_calls :: "completion \<Rightarrow> tool_call list" where
  "requested_calls c = (case am_tool_calls (c_message c) of None \<Rightarrow> [] | Some tcs \<Rightarrow> tcs)"

definition is_tool_round :: "completion \<Rightarrow> bool" where
  "is_tool_round c =
     (requested_calls c \<noteq> [] \<and> c_finish_reason c \<in> {''tool_calls'', ''stop''})"

definition budget_message :: string where
  "budget_message =
     ''I'' @ [CHR 0x27] @ ''ve been working on this for a while but haven'' @ [CHR 0x27]
       @ ''t finished. Here'' @ [CHR 0x27] @ ''s what I'' @ [CHR 0x27]
       @ ''ve done so far. You can continue the conversation for me to refine the results.''"

definition provider_error_result :: "string \<Rightarrow> agent_state \<Rightarrow> run_result" where
  "provider_error_result ex st =
     \<lparr>rr_response = PStr (''Error communicating with AI: '' @ ex), rr_actions = actions st,
      rr_steps = steps st, rr_usage = total_usage st, rr_error = True, rr_warning = None\<rparr>"

definition final_content :: "completion \<Rightarrow> pyval" where
  "final_content c = (case am_content (c_message c) of None \<Rightarrow> PStr [] | Some v \<Rightarrow> v)"

definition final_result :: "completion \<Rightarrow> agent_state \<Rightarrow> run_result" where
  "final_result c st =
     \<lparr>rr_response = final_content c, rr_actions = actions st, rr_steps = steps st,
      rr_usage = total_usage st, rr_error = False, rr_warning = None\<rparr>"

definition budget_result :: "agent_state \<Rightarrow> run_result" where
  "budget_result st =
     \<lparr>rr_response = PStr budget_message, rr_actions = actions st, rr_steps = steps st,
      rr_usage = total_usage st, rr_error = False, rr_warning = Some ''max_rounds_exceeded''\<rparr>"

text \<open>
  \<^verbatim>\<open>for round_num in range(max_rounds)\<close>, by recursion on the rounds that are left. The
  result is paired with the state the invocation ended in.
\<close>

fun agent_rounds ::
  "agent_env \<Rightarrow> tool_context \<Rightarrow> nat \<Rightarrow> agent_state \<Rightarrow> py_error + (run_result \<times> agent_state)" where
  "agent_rounds env ctx 0 st = Inr (budget_result st, st)"
| "agent_rounds env ctx (Suc n) st =
     (case create_chat_completion env (provider_calls st) (llm_messages st) of
        Inl ex \<Rightarrow>
          Inr (provider_error_result ex st, st\<lparr>provider_calls := Suc (provider_calls st)\<rparr>)
      | Inr result \<Rightarrow>
          (let st1 = st\<lparr>total_usage := add_usage (total_usage st) (c_usage result),
                        received := received st @ [result],
                        provider_calls := Suc (provider_calls st)\<rparr>
           in if is_tool_round result then
                (case run_tool_calls env ctx (requested_calls result)
                        (st1\<lparr>llm_messages := llm_messages st1 @ [AssistantMsg (c_message result)]\<rparr>) of
                   Inl e \<Rightarrow> Inl e
                 | Inr st2 \<Rightarrow> agent_rounds env ctx n st2)
              else Inr (final_result result st1, st1)))"

record agent_config =
  max_tool_rounds :: int
  system_prompt :: string

definition run_agent_trace ::
  "agent_env \<Rightarrow> agent_config \<Rightarrow> tool_context \<Rightarrow> chat_message list
     \<Rightarrow> py_error + (run_result \<times> agent_state)" where
  "run_agent_trace env cfg ctx messages =
     agent_rounds env ctx (nat (max_tool_rounds cfg)) (initial_state (system_prompt cfg) messages)"

definition run_agent ::
  "agent_env \<Rightarrow> agent_config \<Rightarrow> tool_context \<Rightarrow> chat_message list \<Rightarrow> py_error + run_result" where
  "run_agent env cfg ctx messages =
     (case run_agent_trace env cfg ctx messages of Inl e \<Rightarrow> Inl e | Inr (r, st) \<Rightarrow> Inr r)"

section \<open>The agent loop, streaming mode\<close>

record response_data =
  rd_response :: pyval
  rd_usage :: usage
  rd_warning :: "string option"

datatype event =
    StepEvent step
  | ActionEvent pydict
  | ResponseEvent response_data
  | ErrorEvent string

text \<open>The generator's local variables, the events it has yielded so far, and the same
  three recording fields as in batch mode.\<close>

record stream_state =
  s_llm_messages :: "llm_message list"
  s_total_usage :: usage
  s_events :: "event list"
  s_received :: "completion list"
  s_provider_calls :: nat
  s_db_calls :: "db_call list"

definition initial_stream_state :: "string \<Rightarrow> chat_message list \<Rightarrow> stream_state" where
  "initial_stream_state sys_prompt messages =
     \<lparr>s_llm_messages = initial_messages sys_prompt messages, s_total_usage = zero_usage,
      s_events = [], s_received = [], s_provider_calls = 0, s_db_calls = []\<rparr>"

text \<open>One tool call of the generator: the step is yielded first, then the action. The
  second component is the exception that ended the generator, if any; the events yielded
  before it stay yielded.\<close>

definition stream_tool_call ::
  "agent_env \<Rightarrow> tool_context \<Rightarrow> tool_call \<Rightarrow> stream_state \<Rightarrow> stream_state \<times> py_error option" where
  "stream_tool_call env ctx tc st =
     (let tool_name = tc_name tc;
          tool_args = parse_tool_args (env_rt env) (tc_arguments tc)
      in case execute_tool (env_rt env) (env_dbs env) tool_name tool_args ctx of
           Inl e \<Rightarrow> (st, Some e)
         | Inr (tool_result, calls) \<Rightarrow>
             (let st0 = st\<lparr>s_db_calls := s_db_calls st @ calls\<rparr>
              in case summarize_result (env_rt env) tool_result of
                   Inl e \<Rightarrow> (st0, Some e)
                 | Inr summary \<Rightarrow>
                     (let st1 = st0\<lparr>s_events := s_events st0
                                       @ [StepEvent (make_step tool_name tool_args summary)]\<rparr>
                      in case (if tool_name \<in> FRONTEND_ACTIONS
                               then (case make_action tool_name tool_args of
                                       Inl e \<Rightarrow> Inl e
                                     | Inr a \<Rightarrow> Inr (s_events st1 @ [ActionEvent a]))
                               else Inr (s_events st1)) of
                           Inl e \<Rightarrow> (st1, Some e)
                         | Inr events' \<Rightarrow>
                             (st1\<lparr>s_events := events',
                                  s_llm_messages := s_llm_messages st1
                                    @ [ToolMsg (tc_id tc)
                                         (json_dumps (env_rt env) (PDict tool_result))]\<rparr>,
                              None))))"

fun stream_tool_calls ::
  "agent_env \<Rightarrow> tool_context \<Rightarrow> tool_call list \<Rightarrow> stream_state \<Rightarrow> stream_state \<times> py_error option" where
  "stream_tool_calls env ctx [] st = (st, None)"
| "stream_tool_calls env ctx (tc # tcs) st =
     (case stream_tool_call env ctx tc st of
        (st', Some e) \<Rightarrow> (st', Some e)
      | (st', None) \<Rightarrow> stream_tool_calls env ctx tcs st')"

fun stream_rounds ::
  "agent_env \<Rightarrow> tool_context \<Rightarrow> nat \<Rightarrow> stream_state \<Rightarrow> stream_state \<times> py_error option" where
  "stream_rounds env ctx 0 st =
     (st\<lparr>s_events := s_events st
           @ [ResponseEvent \<lparr>rd_response = PStr budget_message, rd_usage = s_total_usage st,
                             rd_warning = Some ''max_rounds_exceeded''\<rparr>]\<rparr>,
      None)"
| "stream_rounds env ctx (Suc n) st =
     (case create_chat_completion env (s_provider_calls st) (s_llm_messages st) of
        Inl ex \<Rightarrow>
          (st\<lparr>s_events := s_events st @ [ErrorEvent (''Error communicating with AI: '' @ ex)],
              s_provider_calls := Suc (s_provider_calls st)\<rparr>,
           None)
      | Inr result \<Rightarrow>
          (let st1 = st\<lparr>s_total_usage := add_usage (s_total_usage st) (c_usage result),
                        s_received := s_received st @ [result],
                        s_provider_calls := Suc (s_provider_calls st)\<rparr>
           in if is_tool_round result then
                (case stream_tool_calls env ctx (requested_calls result)
                        (st1\<lparr>s_llm_messages := s_llm_messages st1
                                @ [AssistantMsg (c_message result)]\<rparr>) of
                   (st2, Some e) \<Rightarrow> (st2, Some e)
                 | (st2, None) \<Rightarrow> stream_rounds env ctx n st2)
              else
                (st1\<lparr>s_events := s_events st1
                       @ [ResponseEvent \<lparr>rd_response = final_content result,
                                         rd_usage = s_total_usage st1, rd_warning = None\<rparr>]\<rparr>,
                 None)))"

definition run_agent_stream_trace ::
  "agent_env \<Rightarrow> agent_config \<Rightarrow> tool_context \<Rightarrow> chat_message list
     \<Rightarrow> stream_state \<times> py_error option" where
  "run_agent_stream_trace env cfg ctx messages =
     stream_rounds env ctx (nat (max_tool_rounds cfg))
       (initial_stream_state (system_prompt cfg) messages)"

text \<open>What the consumer of the generator sees: the events, then the exception if one
  ended it.\<close>

definition run_agent_stream ::
  "agent_env \<Rightarrow> agent_config \<Rightarrow> tool_context \<Rightarrow> chat_message list
     \<Rightarrow> event list \<times> py_error option" where
  "run_agent_stream env cfg ctx messages =
     (case run_agent_stream_trace env cfg ctx messages of (st, e) \<Rightarrow> (s_events st, e))"

section \<open>Vocabulary for the properties\<close>

text \<open>The tool calls of the rounds that were handled as tool rounds, in the order of
  dispatch; the ones that name a frontend action; and the action the loop builds for a call.\<close>

definition frontend_calls :: "tool_call list \<Rightarrow> tool_call list" where
  "frontend_calls tcs = filter (\<lambda>tc. tc_name tc \<in> FRONTEND_ACTIONS) tcs"

definition dispatched :: "completion list \<Rightarrow> tool_call list" where
  "dispatched cs = concat (map requested_calls (filter is_tool_round cs))"

definition action_of :: "runtime \<Rightarrow> tool_call \<Rightarrow> pydict" where
  "action_of rt tc =
     (case parse_tool_args rt (tc_arguments tc) of
        PDict args \<Rightarrow> dict_merge [(''type'', PStr (tc_name tc))] args
      | _ \<Rightarrow> [])"

definition action_type :: "pydict \<Rightarrow> pyval option" where
  "action_type a = dict_get a ''type''"

text \<open>The six tools of the catalog that run on the server.\<close>

definition SERVER_TOOLS :: "string set" where
  "SERVER_TOOLS = {''list_schemas'', ''list_tables'', ''get_table_columns'', ''sample_table_data'',
                   ''get_distinct_values'', ''execute_sql''}"

definition server_executed :: "completion list \<Rightarrow> tool_call list" where
  "server_executed cs = filter (\<lambda>tc. tc_name tc \<in> SERVER_TOOLS) (dispatched cs)"

text \<open>The sum of the per-round usage objects, field by field, a missing field or a missing
  usage object counting as zero.\<close>

definition round_prompt_tokens :: "completion \<Rightarrow> int" where
  "round_prompt_tokens c =
     (case c_usage c of None \<Rightarrow> 0 | Some u \<Rightarrow> (case uo_prompt_tokens u of None \<Rightarrow> 0 | Some n \<Rightarrow> n))"

definition round_completion_tokens :: "completion \<Rightarrow> int" where
  "round_completion_tokens c =
     (case c_usage c of None \<Rightarrow> 0 | Some u \<Rightarrow> (case uo_completion_tokens u of None \<Rightarrow> 0 | Some n \<Rightarrow> n))"

definition round_total_tokens :: "completion \<Rightarrow> int" where
  "round_total_tokens c =
     (case c_usage c of None \<Rightarrow> 0 | Some u \<Rightarrow> (case uo_total_tokens u of None \<Rightarrow> 0 | Some n \<Rightarrow> n))"

definition usage_sum :: "completion list \<Rightarrow> usage" where
  "usage_sum cs =
     \<lparr>prompt_tokens = sum_list (map round_prompt_tokens cs),
      completion_tokens = sum_list (map round_completion_tokens cs),
      total_tokens = sum_list (map round_total_tokens cs)\<rparr>"

text \<open>The recorded completions are the adapter's answers to the calls of this invocation,
  in order.\<close>

definition answered_by :: "agent_env \<Rightarrow> completion list \<Rightarrow> bool" where
  "answered_by env cs = (\<forall>i<length cs. \<exists>msgs. create_chat_completion env i msgs = Inr (cs ! i))"

text \<open>What holds between two rounds of the batch loop and of the generator.\<close>

definition loop_inv :: "runtime \<Rightarrow> agent_state \<Rightarrow> bool" where
  "loop_inv rt st =
     (map step_tool (steps st) = map tc_name (dispatched (received st))
      \<and> actions st = map (action_of rt) (frontend_calls (dispatched (received st)))
      \<and> total_usage st = usage_sum (received st))"

fun step_event_tools :: "event list \<Rightarrow> string list" where
  "step_event_tools [] = []"
| "step_event_tools (StepEvent s # es) = step_tool s # step_event_tools es"
| "step_event_tools (e # es) = step_event_tools es"

fun action_events :: "event list \<Rightarrow> pydict list" where
  "action_events [] = []"
| "action_events (ActionEvent a # es) = a # action_events es"
| "action_events (e # es) = action_events es"

fun event_usage :: "event \<Rightarrow> usage option" where
  "event_usage (ResponseEvent d) = Some (rd_usage d)"
| "event_usage e = None"

definition budget_event :: "usage \<Rightarrow> event" where
  "budget_event u =
     ResponseEvent \<lparr>rd_response = PStr budget_message, rd_usage = u,
                    rd_warning = Some ''max_rounds_exceeded''\<rparr>"

definition stream_inv :: "runtime \<Rightarrow> stream_state \<Rightarrow> bool" where
  "stream_inv rt st =
     (step_event_tools (s_events st) = map tc_name (dispatched (s_received st))
      \<and> action_events (s_events st) = map (action_of rt) (frontend_calls (dispatched (s_received st)))
      \<and> s_total_usage st = usage_sum (s_received st))"

text \<open>The dispatch of a call and the summary of its result both return.\<close>

definition dispatch_returns :: "agent_env \<Rightarrow> tool_context \<Rightarrow> tool_call \<Rightarrow> bool" where
  "dispatch_returns env ctx tc =
     (case execute_tool (env_rt env) (env_dbs env) (tc_name tc)
             (parse_tool_args (env_rt env) (tc_arguments tc)) ctx of
        Inl e \<Rightarrow> False
      | Inr (tool_result, calls) \<Rightarrow>
          (case summarize_result (env_rt env) tool_result of Inl e \<Rightarrow> False | Inr s \<Rightarrow> True))"

text \<open>The value \<^verbatim>\<open>get_distinct_values\<close> reports for a row: the first cell of a dictionary
  row, or the row itself, as text; \<^verbatim>\<open>None\<close> stays \<^verbatim>\<open>None\<close>.\<close>

definition cell_text :: "runtime \<Rightarrow> pyval \<Rightarrow> pyval" where
  "cell_text rt row =
     (let val = (case row of PDict (kv # d) \<Rightarrow> snd kv | v \<Rightarrow> v)
      in if val = PNone then PNone else PStr (py_str rt val))"

text \<open>A tool result is capped: it is an error result, or its row list has at most \<open>cap\<close>
  entries and the count field is the length of that list.\<close>

definition capped_result :: "pydict \<Rightarrow> string \<Rightarrow> string \<Rightarrow> int \<Rightarrow> bool" where
  "capped_result r list_key count_key cap =
     (case dict_get r list_key of
        None \<Rightarrow> dict_has r ''error''
      | Some (PList rows) \<Rightarrow>
          int (length rows) \<le> cap \<and> dict_get r count_key = Some (PInt (int (length rows)))
      | Some _ \<Rightarrow> False)"

section \<open>A concrete environment for the examples\<close>

text \<open>
  A runtime whose \<open>json_loads\<close> knows the argument texts used below (every other text is
  undecodable), whose \<open>json_dumps\<close> writes JSON for values without characters that need
  escaping, and whose container text follows Python's \<^verbatim>\<open>repr\<close> for the same values; one
  PostgreSQL database with id 1 whose queries return three rows; and adapters that replay a
  script.
\<close>

fun demo_dumps :: "pyval \<Rightarrow> string" where
  "demo_dumps PNone = ''null''"
| "demo_dumps (PBool b) = (if b then ''true'' else ''false'')"
| "demo_dumps (PInt i) = show_int i"
| "demo_dumps (PStr s) = [CHR 0x22] @ s @ [CHR 0x22]"
| "demo_dumps (PList xs) = ''['' @ join '', '' (map demo_dumps xs) @ '']''"
| "demo_dumps (PDict d) =
     ''{'' @ join '', '' (map (\<lambda>kv. [CHR 0x22] @ fst kv @ [CHR 0x22] @ '': '' @ demo_dumps (snd kv)) d)
       @ ''}''"

fun demo_repr :: "pyval \<Rightarrow> string" where
  "demo_repr PNone = ''None''"
| "demo_repr (PBool b) = (if b then ''True'' else ''False'')"
| "demo_repr (PInt i) = show_int i"
| "demo_repr (PStr s) = [CHR 0x27] @ s @ [CHR 0x27]"
| "demo_repr (PList xs) = ''['' @ join '', '' (map demo_repr xs) @ '']''"
| "demo_repr (PDict d) =
     ''{'' @ join '', '' (map (\<lambda>kv. [CHR 0x27] @ fst kv @ [CHR 0x27] @ '': '' @ demo_repr (snd kv)) d)
       @ ''}''"

definition demo_loads :: "string \<Rightarrow> pyval option" where
  \<open>demo_loads text =
     map_of
       [(''{}'', PDict []),
        (''[1]'', PList [PInt 1]),
        (''{"sql": "SELECT 1"}'', PDict [(''sql'', PStr ''SELECT 1'')]),
        (''{"type": "evil", "sql": "SELECT 1"}'',
           PDict [(''type'', PStr ''evil''), (''sql'', PStr ''SELECT 1'')]),
        (''{"action": "noop", "sql": "SELECT 2"}'',
           PDict [(''action'', PStr ''noop''), (''sql'', PStr ''SELECT 2'')]),
        (''{"sql": "SELECT 3", "error": 5}'',
           PDict [(''sql'', PStr ''SELECT 3''), (''error'', PInt 5)]),
        (''{"table_name": "orders", "schema_name": "public"}'',
           PDict [(''table_name'', PStr ''orders''), (''schema_name'', PStr ''public'')]),
        (''{"table_name": "orders", "schema_name": "public", "column_name": "id"}'',
           PDict [(''table_name'', PStr ''orders''), (''schema_name'', PStr ''public''),
                  (''column_name'', PStr ''id'')])]
       text\<close>

definition demo_rt :: runtime where
  "demo_rt = \<lparr>json_loads = demo_loads, json_dumps = demo_dumps, repr_container = demo_repr\<rparr>"

definition demo_database :: database where
  "demo_database =
     \<lparr>db_engine_spec = Some ''PostgresEngineSpec'',
      get_all_schema_names = (\<lambda>cat. Inr [''public'', ''analytics'']),
      get_all_table_names_in_schema = (\<lambda>cat sch. Inr [(''orders'', Some ''public'', None)]),
      get_columns = (\<lambda>t s cat. Inr [[(''column_name'', PStr ''id''), (''type'', PStr ''INTEGER'')]]),
      run_query = (\<lambda>sql opts. Inr ([PDict [(''id'', PInt 1)], PDict [(''id'', PInt 2)],
                                     PDict [(''id'', PInt 3)]], [''id'']))\<rparr>"

definition demo_dbs :: db_lookup where
  "demo_dbs i = (if i = 1 then Some demo_database else None)"

definition demo_ctx :: tool_context where
  "demo_ctx = \<lparr>database_id = 1, schema_name = Some ''public'', catalog = None, max_sample_rows = 2\<rparr>"

definition scripted :: "(string + completion) list \<Rightarrow> nat \<Rightarrow> llm_message list \<Rightarrow> string + completion" where
  "scripted rs i msgs = (if i < length rs then rs ! i else Inl ''script exhausted'')"

definition demo_env :: "(nat \<Rightarrow> llm_message list \<Rightarrow> string + completion) \<Rightarrow> agent_env" where
  "demo_env provider = \<lparr>env_rt = demo_rt, env_dbs = demo_dbs, create_chat_completion = provider\<rparr>"

definition demo_usage :: "usage_obj option" where
  "demo_usage = Some \<lparr>uo_prompt_tokens = Some 10, uo_completion_tokens = Some 5, uo_total_tokens = Some 15\<rparr>"

definition tool_round :: "string \<Rightarrow> tool_call list \<Rightarrow> completion" where
  "tool_round reason tcs =
     \<lparr>c_message = \<lparr>am_role = ''assistant'', am_content = Some PNone, am_tool_calls = Some tcs\<rparr>,
      c_finish_reason = reason, c_usage = demo_usage\<rparr>"

definition text_round :: "string \<Rightarrow> completion" where
  "text_round t =
     \<lparr>c_message = \<lparr>am_role = ''assistant'', am_content = Some (PStr t), am_tool_calls = None\<rparr>,
      c_finish_reason = ''stop'', c_usage = demo_usage\<rparr>"

definition demo_cfg :: "int \<Rightarrow> agent_config" where
  "demo_cfg n = \<lparr>max_tool_rounds = n, system_prompt = ''You are an AI SQL assistant.''\<rparr>"

definition demo_messages :: "chat_message list" where
  "demo_messages = [\<lparr>cm_role = ''user'', cm_content = ''show orders''\<rparr>]"

text \<open>A tool call with undecodable arguments for a tool with a required field.\<close>

definition invalid_json_script :: "nat \<Rightarrow> llm_message list \<Rightarrow> string + completion" where
  "invalid_json_script =
     scripted
       [Inr (tool_round ''tool_calls''
               [\<lparr>tc_id = ''call_1'', tc_name = ''list_tables'', tc_arguments = ''{invalid json''\<rparr>]),
        Inr (text_round ''done'')]"

text \<open>An adapter that asks for \<^verbatim>\<open>list_tables\<close> without arguments on every round.\<close>

definition always_list_tables :: "nat \<Rightarrow> llm_message list \<Rightarrow> string + completion" where
  "always_list_tables i msgs =
     Inr (tool_round ''tool_calls''
            [\<lparr>tc_id = ''call_1'', tc_name = ''list_tables'', tc_arguments = ''{}''\<rparr>])"

definition aborted_stream_run :: "stream_state \<times> py_error option" where
  "aborted_stream_run =
     run_agent_stream_trace (demo_env always_list_tables) (demo_cfg 2) demo_ctx demo_messages"

text \<open>Two rounds: a \<^verbatim>\<open>set_editor_sql\<close> call, then the answer, with a usage object that
  lacks a field.\<close>

definition two_round_script :: "nat \<Rightarrow> llm_message list \<Rightarrow> string + completion" where
  \<open>two_round_script =
     scripted
       [Inr (tool_round ''tool_calls''
               [\<lparr>tc_id = ''call_1'', tc_name = ''set_editor_sql'',
                 tc_arguments = ''{"sql": "SELECT 1"}''\<rparr>]),
        Inr \<lparr>c_message = \<lparr>am_role = ''assistant'', am_content = Some (PStr ''done''),
                          am_tool_calls = None\<rparr>,
             c_finish_reason = ''stop'',
             c_usage = Some \<lparr>uo_prompt_tokens = Some 7, uo_completion_tokens = None,
                             uo_total_tokens = Some 9\<rparr>\<rparr>]\<close>

text \<open>The adapter fails on the second round; the states after the first round.\<close>

definition failing_script :: "nat \<Rightarrow> llm_message list \<Rightarrow> string + completion" where
  "failing_script =
     scripted
       [Inr (tool_round ''tool_calls''
               [\<lparr>tc_id = ''call_1'', tc_name = ''list_schemas'', tc_arguments = ''{}''\<rparr>]),
        Inl ''boom'']"

definition failing_stream_run :: "stream_state \<times> py_error option" where
  "failing_stream_run =
     run_agent_stream_trace (demo_env failing_script) (demo_cfg 10) demo_ctx demo_messages"

definition list_schemas_step :: step where
  "list_schemas_step =
     \<lparr>step_type = ''tool_call'', step_tool = ''list_schemas'', step_args = PDict [],
      step_result_summary = ''Found 2 schemas: analytics, public''\<rparr>"

definition after_round_1 :: agent_state where
  "after_round_1 =
     \<lparr>llm_messages =
        initial_messages ''You are an AI SQL assistant.'' demo_messages
          @ [AssistantMsg \<lparr>am_role = ''assistant'', am_content = Some PNone,
                           am_tool_calls = Some [\<lparr>tc_id = ''call_1'', tc_name = ''list_schemas'',
                                                  tc_arguments = ''{}''\<rparr>]\<rparr>,
             ToolMsg ''call_1''
               (demo_dumps (PDict [(''schemas'', PList [PStr ''analytics'', PStr ''public''])]))],
      steps = [list_schemas_step],
      actions = [],
      total_usage = \<lparr>prompt_tokens = 10, completion_tokens = 5, total_tokens = 15\<rparr>,
      received = [tool_round ''tool_calls''
                    [\<lparr>tc_id = ''call_1'', tc_name = ''list_schemas'', tc_arguments = ''{}''\<rparr>]],
      provider_calls = 1,
      db_calls = [LookupDatabase 1, GetAllSchemaNames]\<rparr>"

definition stream_after_round_1 :: stream_state where
  "stream_after_round_1 =
     \<lparr>s_llm_messages = llm_messages after_round_1,
      s_total_usage = total_usage after_round_1,
      s_events = map StepEvent (steps after_round_1),
      s_received = received after_round_1,
      s_provider_calls = provider_calls after_round_1,
      s_db_calls = db_calls after_round_1\<rparr>"

text \<open>Calls to a name outside the catalog, and to \<^verbatim>\<open>set_editor_sql\<close> with a
  \<^verbatim>\<open>type\<close> key among its arguments.\<close>

definition unknown_tool_script :: "nat \<Rightarrow> llm_message list \<Rightarrow> string + completion" where
  "unknown_tool_script =
     scripted
       [Inr (tool_round ''tool_calls''
               [\<lparr>tc_id = ''call_1'', tc_name = ''drop_database'', tc_arguments = ''{}''\<rparr>]),
        Inr (text_round ''done'')]"

definition unknown_tool_run :: "py_error + (run_result \<times> agent_state)" where
  "unknown_tool_run =
     run_agent_trace (demo_env unknown_tool_script) (demo_cfg 10) demo_ctx demo_messages"

definition typed_arguments_script :: "nat \<Rightarrow> llm_message list \<Rightarrow> string + completion" where
  \<open>typed_arguments_script =
     scripted
       [Inr (tool_round ''tool_calls''
               [\<lparr>tc_id = ''call_1'', tc_name = ''set_editor_sql'',
                 tc_arguments = ''{"type": "evil", "sql": "SELECT 1"}''\<rparr>]),
        Inr (text_round ''done'')]\<close>

definition typed_arguments_run :: "py_error + run_result" where
  "typed_arguments_run =
     run_agent (demo_env typed_arguments_script) (demo_cfg 10) demo_ctx demo_messages"

definition mixed_script :: "nat \<Rightarrow> llm_message list \<Rightarrow> string + completion" where
  \<open>mixed_script =
     scripted
       [Inr (tool_round ''stop''
               [\<lparr>tc_id = ''call_1'', tc_name = ''list_schemas'', tc_arguments = ''{}''\<rparr>,
                \<lparr>tc_id = ''call_2'', tc_name = ''drop_database'', tc_arguments = ''{}''\<rparr>,
                \<lparr>tc_id = ''call_3'', tc_name = ''set_editor_sql'',
                 tc_arguments = ''{"sql": "SELECT 1"}''\<rparr>]),
        Inr (text_round ''done'')]\<close>

definition editor_call :: tool_call where
  \<open>editor_call = \<lparr>tc_id = ''call_7'', tc_name = ''set_editor_sql'',
                   tc_arguments = ''{"sql": "SELECT 1"}''\<rparr>\<close>

text \<open>Calls to \<^verbatim>\<open>set_editor_sql\<close> whose arguments carry, next to \<^verbatim>\<open>sql\<close>, a \<^verbatim>\<open>type\<close>
  key, an \<^verbatim>\<open>action\<close> key, or an \<^verbatim>\<open>error\<close> key with a number.\<close>

definition overriding_script :: "nat \<Rightarrow> llm_message list \<Rightarrow> string + completion" where
  \<open>overriding_script =
     scripted
       [Inr (tool_round ''tool_calls''
               [\<lparr>tc_id = ''call_1'', tc_name = ''set_editor_sql'',
                 tc_arguments = ''{"type": "evil", "sql": "SELECT 1"}''\<rparr>,
                \<lparr>tc_id = ''call_2'', tc_name = ''set_editor_sql'',
                 tc_arguments = ''{"action": "noop", "sql": "SELECT 2"}''\<rparr>]),
        Inr (text_round ''done'')]\<close>

definition overriding_trace :: "py_error + (run_result \<times> agent_state)" where
  "overriding_trace =
     run_agent_trace (demo_env overriding_script) (demo_cfg 10) demo_ctx demo_messages"

definition overriding_stream :: "event list \<times> py_error option" where
  "overriding_stream =
     run_agent_stream (demo_env overriding_script) (demo_cfg 10) demo_ctx demo_messages"

definition error_key_script :: "nat \<Rightarrow> llm_message list \<Rightarrow> string + completion" where
  \<open>error_key_script =
     scripted
       [Inr (tool_round ''tool_calls''
               [\<lparr>tc_id = ''call_1'', tc_name = ''set_editor_sql'',
                 tc_arguments = ''{"sql": "SELECT 3", "error": 5}''\<rparr>]),
        Inr (text_round ''done'')]\<close>

definition error_key_run :: "py_error + run_result" where
  "error_key_run =
     run_agent (demo_env error_key_script) (demo_cfg 10) demo_ctx demo_messages"

text \<open>Argument text that is valid JSON but not an object.\<close>

definition list_arguments_script :: "string \<Rightarrow> nat \<Rightarrow> llm_message list \<Rightarrow> string + completion" where
  "list_arguments_script tool =
     scripted
       [Inr (tool_round ''tool_calls''
               [\<lparr>tc_id = ''call_1'', tc_name = tool, tc_arguments = ''[1]''\<rparr>]),
        Inr (text_round ''done'')]"

definition list_arguments_run :: "string \<Rightarrow> py_error + run_result" where
  "list_arguments_run tool =
     run_agent (demo_env (list_arguments_script tool)) (demo_cfg 10) demo_ctx demo_messages"

text \<open>Tool arguments, the queries the tools build from them, and the results for the rows
  of the demo database.\<close>

definition demo_rows :: "pyval list" where
  "demo_rows = [PDict [(''id'', PInt 1)], PDict [(''id'', PInt 2)], PDict [(''id'', PInt 3)]]"

definition distinct_args :: pyval where
  "distinct_args = PDict [(''table_name'', PStr ''orders''), (''schema_name'', PStr ''public''),
                          (''column_name'', PStr ''id'')]"

definition distinct_run :: "py_error + (pydict \<times> db_call list)" where
  "distinct_run = execute_tool demo_rt demo_dbs ''get_distinct_values'' distinct_args demo_ctx"

definition distinct_query :: string where
  \<open>distinct_query =
     ''SELECT DISTINCT "id" FROM "public"."orders" WHERE "id" IS NOT NULL ORDER BY "id" LIMIT 50''\<close>

definition distinct_options :: query_options where
  "distinct_options = \<lparr>qo_catalog = None, qo_schema = PStr ''public'', qo_limit = 50\<rparr>"

definition distinct_result :: pydict where
  "distinct_result =
     [(''table'', PStr ''orders''), (''column'', PStr ''id''), (''distinct_count'', PInt 3),
      (''values'', PList [PStr ''1'', PStr ''2'', PStr ''3''])]"

definition sample_args :: pyval where
  "sample_args = PDict [(''table_name'', PStr ''orders''), (''schema_name'', PStr ''public'')]"

definition sample_query :: string where
  \<open>sample_query = ''SELECT * FROM "public"."orders" LIMIT 2''\<close>

definition sample_options :: query_options where
  "sample_options = \<lparr>qo_catalog = None, qo_schema = PStr ''public'', qo_limit = 2\<rparr>"

definition sample_result :: pydict where
  "sample_result =
     [(''table'', PStr ''orders''), (''schema'', PStr ''public''), (''row_count'', PInt 2),
      (''data'', PList [PDict [(''id'', PInt 1)], PDict [(''id'', PInt 2)]])]"

definition sql_args :: pyval where
  "sql_args = PDict [(''sql'', PStr ''SELECT id FROM orders'')]"

definition sql_options :: query_options where
  "sql_options = \<lparr>qo_catalog = None, qo_schema = PStr ''public'', qo_limit = 50\<rparr>"

definition sql_result :: pydict where
  "sql_result =
     [(''columns'', PList [PStr ''id'']), (''row_count'', PInt 3),
      (''data'', PList [PDict [(''id'', PInt 1)], PDict [(''id'', PInt 2)], PDict [(''id'', PInt 3)]])]"

text \<open>A completion cut off by the token limit while it was requesting a tool.\<close>

definition truncated_completion :: completion where
  \<open>truncated_completion =
     \<lparr>c_message = \<lparr>am_role = ''assistant'', am_content = Some (PStr ''Let me look at the''),
                    am_tool_calls = Some [\<lparr>tc_id = ''call_1'', tc_name = ''execute_sql'',
                                           tc_arguments = ''{"sql": "SELECT 1"}''\<rparr>]\<rparr>,
      c_finish_reason = ''length'',
      c_usage = Some \<lparr>uo_prompt_tokens = Some 10, uo_completion_tokens = Some 5,
                      uo_total_tokens = Some 15\<rparr>\<rparr>\<close>

definition truncated_script :: "nat \<Rightarrow> llm_message list \<Rightarrow> string + completion" where
  "truncated_script =
     scripted
       [Inr (tool_round ''tool_calls''
               [\<lparr>tc_id = ''call_1'', tc_name = ''list_schemas'', tc_arguments = ''{}''\<rparr>]),
        Inr truncated_completion]"

section \<open>Dictionaries, usage sums and the tool calls of a run\<close>

lemma map_of_dict_set: "map_of (dict_set d k v) k' = (if k' = k then Some v else map_of d k')"
  by (induction d) auto

lemma map_of_dict_merge_other:
  "map_of extra key = None \<Longrightarrow> map_of (dict_merge base extra) key = map_of base key"
  unfolding dict_merge_def
  by (induction extra arbitrary: base) (auto simp: map_of_dict_set split: if_splits)

lemma usage_sum_snoc: "usage_sum (cs @ [c]) = add_usage (usage_sum cs) (c_usage c)"
  by (simp add: usage_sum_def add_usage_def round_prompt_tokens_def round_completion_tokens_def
      round_total_tokens_def field_or_zero_def split: option.splits)

lemma dispatched_snoc:
  "dispatched (cs @ [c]) = dispatched cs @ (if is_tool_round c then requested_calls c else [])"
  by (simp add: dispatched_def)

lemma frontend_calls_append: "frontend_calls (xs @ ys) = frontend_calls xs @ frontend_calls ys"
  by (simp add: frontend_calls_def)

lemma answered_by_snoc:
  "answered_by env cs \<Longrightarrow> create_chat_completion env (length cs) msgs = Inr c
     \<Longrightarrow> answered_by env (cs @ [c])"
  by (auto simp: answered_by_def nth_append less_Suc_eq)

section \<open>One tool call and one round of tool calls, batch mode\<close>

text \<open>A call that is handled without an exception appends one step that carries the
  call's tool name, appends an action exactly when the name is a frontend action, and leaves
  the usage and the adapter bookkeeping alone.\<close>

lemma handle_tool_call_Inr:
  assumes "handle_tool_call env ctx tc st = Inr st'"
  shows "map step_tool (steps st') = map step_tool (steps st) @ [tc_name tc]"
    and "actions st' = actions st @ map (action_of (env_rt env)) (frontend_calls [tc])"
    and "total_usage st' = total_usage st"
    and "received st' = received st"
    and "provider_calls st' = provider_calls st"
  using assms
  by (auto simp: handle_tool_call_def Let_def make_step_def make_action_def action_of_def
      frontend_calls_def split: sum.splits prod.splits if_splits pyval.splits)

lemma run_tool_calls_Inr:
  assumes "run_tool_calls env ctx tcs st = Inr st'"
  shows "map step_tool (steps st') = map step_tool (steps st) @ map tc_name tcs
       \<and> actions st' = actions st @ map (action_of (env_rt env)) (frontend_calls tcs)
       \<and> total_usage st' = total_usage st
       \<and> received st' = received st
       \<and> provider_calls st' = provider_calls st"
  using assms
proof (induction tcs arbitrary: st)
  case Nil
  then show ?case by (simp add: frontend_calls_def)
next
  case (Cons tc tcs)
  from Cons.prems obtain st1 where h: "handle_tool_call env ctx tc st = Inr st1"
    and r: "run_tool_calls env ctx tcs st1 = Inr st'"
    by (auto split: sum.splits)
  from Cons.IH [OF r] handle_tool_call_Inr [OF h] show ?case
    by (simp add: frontend_calls_def)
qed

lemma execute_tool_frontend_Inr:
  assumes "tool_name \<in> FRONTEND_ACTIONS" and "execute_tool rt dbs tool_name a ctx = Inr x"
  shows "\<exists>args. a = PDict args"
  using assms by (cases a) (simp_all add: execute_tool_def)

lemma handle_tool_call_returns:
  assumes "dispatch_returns env ctx tc"
  shows "\<exists>st'. handle_tool_call env ctx tc st = Inr st'"
proof -
  let ?a = "parse_tool_args (env_rt env) (tc_arguments tc)"
  from assms obtain res calls s where
    ex: "execute_tool (env_rt env) (env_dbs env) (tc_name tc) ?a ctx = Inr (res, calls)"
    and su: "summarize_result (env_rt env) res = Inr s"
    by (auto simp: dispatch_returns_def split: sum.splits prod.splits)
  show ?thesis
  proof (cases "tc_name tc \<in> FRONTEND_ACTIONS")
    case True
    from execute_tool_frontend_Inr [OF True ex] obtain args where "?a = PDict args" by blast
    with True ex su show ?thesis
      by (simp add: handle_tool_call_def Let_def make_action_def)
  next
    case False
    with ex su show ?thesis
      by (simp add: handle_tool_call_def Let_def)
  qed
qed

lemma run_tool_calls_returns:
  assumes "list_all (dispatch_returns env ctx) tcs"
  shows "\<exists>st'. run_tool_calls env ctx tcs st = Inr st'"
  using assms
proof (induction tcs arbitrary: st)
  case Nil
  then show ?case by simp
next
  case (Cons tc tcs)
  from Cons.prems have "dispatch_returns env ctx tc" by simp
  then obtain st1 where "handle_tool_call env ctx tc st = Inr st1"
    using handle_tool_call_returns by blast
  with Cons show ?case by simp
qed

section \<open>The batch loop\<close>

text \<open>The loop keeps \<open>loop_inv\<close>, and what it returns is what the final state holds.\<close>

lemma agent_rounds_inv:
  assumes "loop_inv (env_rt env) st" and "agent_rounds env ctx n st = Inr (r, st')"
  shows "loop_inv (env_rt env) st' \<and> rr_steps r = steps st' \<and> rr_actions r = actions st'
         \<and> rr_usage r = total_usage st'"
  using assms
proof (induction n arbitrary: st)
  case 0
  then show ?case by (auto simp: budget_result_def)
next
  case (Suc n)
  show ?case
  proof (cases "create_chat_completion env (provider_calls st) (llm_messages st)")
    case (Inl ex)
    with Suc.prems show ?thesis
      by (auto simp: provider_error_result_def loop_inv_def)
  next
    case (Inr c)
    define st1 where "st1 = st\<lparr>total_usage := add_usage (total_usage st) (c_usage c),
                               received := received st @ [c],
                               provider_calls := Suc (provider_calls st)\<rparr>"
    show ?thesis
    proof (cases "is_tool_round c")
      case False
      with Inr Suc.prems show ?thesis
        by (auto simp: final_result_def loop_inv_def usage_sum_snoc dispatched_snoc)
    next
      case True
      with Inr Suc.prems obtain st2 where
        t: "run_tool_calls env ctx (requested_calls c)
              (st1\<lparr>llm_messages := llm_messages st1 @ [AssistantMsg (c_message c)]\<rparr>) = Inr st2"
        and rest: "agent_rounds env ctx n st2 = Inr (r, st')"
        by (auto simp: st1_def Let_def split: sum.splits)
      have "loop_inv (env_rt env) st2"
        using run_tool_calls_Inr [OF t] Suc.prems(1) True
        by (simp add: loop_inv_def st1_def usage_sum_snoc dispatched_snoc frontend_calls_append)
      from Suc.IH [OF this rest] show ?thesis .
    qed
  qed
qed

lemma loop_inv_initial: "loop_inv rt (initial_state p ms)"
  by (simp add: loop_inv_def initial_state_def dispatched_def frontend_calls_def usage_sum_def
      zero_usage_def)

text \<open>The recorded completions are the adapter's answers, and the adapter was called once
  per recorded completion, plus once more when the run ended in a provider error.\<close>

lemma agent_rounds_received:
  assumes "provider_calls st = length (received st)" and "answered_by env (received st)"
    and "agent_rounds env ctx n st = Inr (r, st')"
  shows "answered_by env (received st')
       \<and> provider_calls st' = length (received st') + (if rr_error r then 1 else 0)"
  using assms
proof (induction n arbitrary: st)
  case 0
  then show ?case by (auto simp: budget_result_def)
next
  case (Suc n)
  show ?case
  proof (cases "create_chat_completion env (provider_calls st) (llm_messages st)")
    case (Inl ex)
    with Suc.prems show ?thesis by (auto simp: provider_error_result_def)
  next
    case (Inr c)
    have ans: "answered_by env (received st @ [c])"
      using answered_by_snoc [OF Suc.prems(2)] Inr Suc.prems(1) by simp
    define st1 where "st1 = st\<lparr>total_usage := add_usage (total_usage st) (c_usage c),
                               received := received st @ [c],
                               provider_calls := Suc (provider_calls st)\<rparr>"
    show ?thesis
    proof (cases "is_tool_round c")
      case False
      with Inr Suc.prems ans show ?thesis by (auto simp: final_result_def)
    next
      case True
      with Inr Suc.prems obtain st2 where
        t: "run_tool_calls env ctx (requested_calls c)
              (st1\<lparr>llm_messages := llm_messages st1 @ [AssistantMsg (c_message c)]\<rparr>) = Inr st2"
        and rest: "agent_rounds env ctx n st2 = Inr (r, st')"
        by (auto simp: st1_def Let_def split: sum.splits)
      have "provider_calls st2 = length (received st2)" "answered_by env (received st2)"
        using run_tool_calls_Inr [OF t] Suc.prems(1) ans by (simp_all add: st1_def)
      from Suc.IH [OF this rest] show ?thesis .
    qed
  qed
qed

text \<open>A run that used up a budget of \<open>k\<close> rounds is a prefix of every run with a larger
  budget: the state it stopped in is the state after \<open>k\<close> rounds.\<close>

lemma agent_rounds_extend:
  assumes "agent_rounds env ctx k st = Inr (r, st')" and "rr_warning r \<noteq> None"
  shows "agent_rounds env ctx (k + m) st = agent_rounds env ctx m st'"
  using assms
proof (induction k arbitrary: st)
  case 0
  then show ?case by simp
next
  case (Suc k)
  show ?case
  proof (cases "create_chat_completion env (provider_calls st) (llm_messages st)")
    case (Inl ex)
    with Suc.prems show ?thesis by (auto simp: provider_error_result_def)
  next
    case (Inr c)
    show ?thesis
    proof (cases "is_tool_round c")
      case False
      with Inr Suc.prems show ?thesis by (auto simp: final_result_def Let_def)
    next
      case True
      with Inr Suc.prems show ?thesis
        by (auto simp: Let_def split: sum.splits dest: Suc.IH)
    qed
  qed
qed

text \<open>When the adapter asks for tools on every round and every dispatch returns, the loop
  calls the adapter once per round of the budget and ends with the budget result.\<close>

lemma budget_exhausted_when_dispatch_returns:
  assumes "\<forall>i msgs. \<exists>c. create_chat_completion env i msgs = Inr c \<and> is_tool_round c
                        \<and> list_all (dispatch_returns env ctx) (requested_calls c)"
  shows "\<exists>st'. agent_rounds env ctx n st = Inr (budget_result st', st')
              \<and> provider_calls st' = provider_calls st + n"
proof (induction n arbitrary: st)
  case 0
  show ?case by simp
next
  case (Suc n)
  from assms obtain c where c: "create_chat_completion env (provider_calls st) (llm_messages st) = Inr c"
    "is_tool_round c" "list_all (dispatch_returns env ctx) (requested_calls c)"
    by blast
  define st1 where "st1 = st\<lparr>total_usage := add_usage (total_usage st) (c_usage c),
                             received := received st @ [c],
                             provider_calls := Suc (provider_calls st),
                             llm_messages := llm_messages st @ [AssistantMsg (c_message c)]\<rparr>"
  from run_tool_calls_returns [OF c(3)] obtain st2 where
    t: "run_tool_calls env ctx (requested_calls c) st1 = Inr st2" by blast
  have pc: "provider_calls st2 = Suc (provider_calls st)"
    using run_tool_calls_Inr [OF t] by (simp add: st1_def)
  from Suc.IH [of st2] obtain st' where
    r: "agent_rounds env ctx n st2 = Inr (budget_result st', st')"
      "provider_calls st' = provider_calls st2 + n" by blast
  have "agent_rounds env ctx (Suc n) st = agent_rounds env ctx n st2"
    using c t by (simp add: st1_def Let_def)
  with r pc show ?case by simp
qed

section \<open>The generator\<close>

lemma step_event_tools_append:
  "step_event_tools (xs @ ys) = step_event_tools xs @ step_event_tools ys"
  by (induction xs rule: step_event_tools.induct) auto

lemma action_events_append: "action_events (xs @ ys) = action_events xs @ action_events ys"
  by (induction xs rule: action_events.induct) auto

lemma stream_tool_call_None:
  assumes "stream_tool_call env ctx tc st = (st', None)"
  shows "step_event_tools (s_events st') = step_event_tools (s_events st) @ [tc_name tc]"
    and "action_events (s_events st')
           = action_events (s_events st) @ map (action_of (env_rt env)) (frontend_calls [tc])"
    and "s_total_usage st' = s_total_usage st"
    and "s_received st' = s_received st"
    and "s_provider_calls st' = s_provider_calls st"
  using assms
  by (auto simp: stream_tool_call_def Let_def make_step_def make_action_def action_of_def
      frontend_calls_def step_event_tools_append action_events_append
      split: sum.splits prod.splits if_splits pyval.splits)

lemma stream_tool_calls_None:
  assumes "stream_tool_calls env ctx tcs st = (st', None)"
  shows "step_event_tools (s_events st') = step_event_tools (s_events st) @ map tc_name tcs
       \<and> action_events (s_events st')
           = action_events (s_events st) @ map (action_of (env_rt env)) (frontend_calls tcs)
       \<and> s_total_usage st' = s_total_usage st
       \<and> s_received st' = s_received st
       \<and> s_provider_calls st' = s_provider_calls st"
  using assms
proof (induction tcs arbitrary: st)
  case Nil
  then show ?case by (simp add: frontend_calls_def)
next
  case (Cons tc tcs)
  from Cons.prems obtain st1 where h: "stream_tool_call env ctx tc st = (st1, None)"
    and r: "stream_tool_calls env ctx tcs st1 = (st', None)"
    by (auto split: prod.splits option.splits)
  from Cons.IH [OF r] stream_tool_call_None [OF h] show ?case
    by (simp add: frontend_calls_def)
qed

lemma stream_rounds_inv:
  assumes "stream_inv (env_rt env) st" and "stream_rounds env ctx n st = (st', None)"
  shows "step_event_tools (s_events st') = map tc_name (dispatched (s_received st'))
       \<and> action_events (s_events st')
           = map (action_of (env_rt env)) (frontend_calls (dispatched (s_received st')))
       \<and> s_total_usage st' = usage_sum (s_received st')"
  using assms
proof (induction n arbitrary: st)
  case 0
  then show ?case
    by (auto simp: stream_inv_def step_event_tools_append action_events_append)
next
  case (Suc n)
  show ?case
  proof (cases "create_chat_completion env (s_provider_calls st) (s_llm_messages st)")
    case (Inl ex)
    with Suc.prems show ?thesis
      by (auto simp: stream_inv_def step_event_tools_append action_events_append)
  next
    case (Inr c)
    define st1 where "st1 = st\<lparr>s_total_usage := add_usage (s_total_usage st) (c_usage c),
                               s_received := s_received st @ [c],
                               s_provider_calls := Suc (s_provider_calls st)\<rparr>"
    show ?thesis
    proof (cases "is_tool_round c")
      case False
      with Inr Suc.prems show ?thesis
        by (auto simp: stream_inv_def usage_sum_snoc dispatched_snoc step_event_tools_append
            action_events_append)
    next
      case True
      with Inr Suc.prems obtain st2 where
        t: "stream_tool_calls env ctx (requested_calls c)
              (st1\<lparr>s_llm_messages := s_llm_messages st1 @ [AssistantMsg (c_message c)]\<rparr>)
            = (st2, None)"
        and rest: "stream_rounds env ctx n st2 = (st', None)"
        by (auto simp: st1_def Let_def split: prod.splits option.splits)
      have "stream_inv (env_rt env) st2"
        using stream_tool_calls_None [OF t] Suc.prems(1) True
        by (simp add: stream_inv_def st1_def usage_sum_snoc dispatched_snoc frontend_calls_append)
      from Suc.IH [OF this rest] show ?thesis .
    qed
  qed
qed

lemma stream_inv_initial: "stream_inv rt (initial_stream_state p ms)"
  by (simp add: stream_inv_def initial_stream_state_def dispatched_def frontend_calls_def
      usage_sum_def zero_usage_def)

lemma stream_rounds_extend:
  assumes "stream_rounds env ctx k st
             = (sk\<lparr>s_events := s_events sk @ [budget_event (s_total_usage sk)]\<rparr>, None)"
  shows "stream_rounds env ctx (k + m) st = stream_rounds env ctx m sk"
  using assms
proof (induction k arbitrary: st)
  case 0
  then have "st = sk"
    by (cases st, cases sk) (simp add: budget_event_def)
  then show ?case by simp
next
  case (Suc k)
  show ?case
  proof (cases "create_chat_completion env (s_provider_calls st) (s_llm_messages st)")
    case (Inl ex)
    with Suc.prems show ?thesis
      by (cases st, cases sk) (simp add: budget_event_def)
  next
    case (Inr c)
    show ?thesis
    proof (cases "is_tool_round c")
      case False
      with Inr Suc.prems show ?thesis
        by (cases st, cases sk) (simp add: budget_event_def Let_def)
    next
      case True
      with Inr Suc.prems show ?thesis
        by (auto simp: Let_def split: prod.splits option.splits dest: Suc.IH)
    qed
  qed
qed

section \<open>Row caps of the tools\<close>

lemma length_py_take: "0 \<le> n \<Longrightarrow> int (length (py_take n xs)) \<le> n"
  by (simp add: py_take_def)

lemma length_collect_values:
  "collect_values rt rows = Inr vals \<Longrightarrow> length vals = length rows"
  by (induction rows arbitrary: vals) (auto split: sum.splits)

lemma sample_capped:
  "tool_sample_table_data rt dbs dbid tn sn cat max_rows = (r, calls) \<Longrightarrow> 0 \<le> max_rows
     \<Longrightarrow> capped_result r ''data'' ''row_count'' max_rows"
  by (auto simp: tool_sample_table_data_def capped_result_def dict_get_def dict_has_def
      error_result_def Let_def length_py_take split: option.splits sum.splits prod.splits)

lemma distinct_capped:
  "tool_get_distinct_values rt dbs dbid tn sn cn cat max_values = (r, calls) \<Longrightarrow> 0 \<le> max_values
     \<Longrightarrow> capped_result r ''values'' ''distinct_count'' max_values"
  by (auto simp: tool_get_distinct_values_def capped_result_def dict_get_def dict_has_def
      error_result_def Let_def length_py_take dest!: length_collect_values
      split: option.splits sum.splits prod.splits)

lemma execute_sql_capped:
  "tool_execute_sql dbs dbid sql sn cat max_rows = (r, calls) \<Longrightarrow> 0 \<le> max_rows
     \<Longrightarrow> capped_result r ''data'' ''row_count'' max_rows"
  by (auto simp: tool_execute_sql_def capped_result_def dict_get_def dict_has_def
      Let_def length_py_take split: option.splits sum.splits prod.splits pyval.splits if_splits)

text \<open>The rows of a sample are the first rows the collaborator returned: the cut is made
  on the retrieved list.\<close>

lemma sample_rows_are_a_prefix:
  assumes "dbs dbid = Some database"
    and "run_query database (sample_sql rt (engine_name database) tn sn max_rows)
           \<lparr>qo_catalog = cat, qo_schema = sn, qo_limit = max_rows\<rparr> = Inr (rows, columns)"
    and "0 \<le> max_rows"
  shows "dict_get (fst (tool_sample_table_data rt dbs dbid tn sn cat max_rows)) ''data''
           = Some (PList (take (nat max_rows) rows))"
  using assms
  by (simp add: tool_sample_table_data_def Let_def dict_get_def py_take_def)

text \<open>The cut is made on the rows the collaborator returned for the query the tool ran.\<close>

lemma collect_values_map:
  "PDict [] \<notin> set rows \<Longrightarrow> collect_values rt rows = Inr (map (cell_text rt) rows)"
proof (induction rows)
  case Nil
  then show ?case by simp
next
  case (Cons row rows)
  then have "row \<noteq> PDict []" by auto
  then obtain val where "first_cell row = Inr val"
    and "cell_text rt row = (if val = PNone then PNone else PStr (py_str rt val))"
    by (cases row rule: first_cell.cases) (auto simp: cell_text_def)
  with Cons show ?case by simp
qed

lemma sample_prefix:
  assumes "tool_sample_table_data rt dbs dbid tn sn cat max_rows = (r, calls)"
  shows "0 \<le> max_rows \<and> dbs dbid = Some database
         \<and> calls = [LookupDatabase dbid, RunQuery sql opts]
         \<and> run_query database sql opts = Inr (rows, columns)
       \<longrightarrow> dict_get r ''data'' = Some (PList (take (nat max_rows) rows))
           \<and> dict_get r ''row_count'' = Some (PInt (int (length (take (nat max_rows) rows))))
           \<and> qo_limit opts = max_rows"
  using assms
  by (auto simp: tool_sample_table_data_def Let_def dict_get_def py_take_def
      split: sum.splits prod.splits)

lemma distinct_prefix:
  assumes "tool_get_distinct_values rt dbs dbid tn sn cn cat 50 = (r, calls)"
  shows "dbs dbid = Some database
         \<and> calls = [LookupDatabase dbid, RunQuery sql opts]
         \<and> run_query database sql opts = Inr (rows, columns)
         \<and> PDict [] \<notin> set (take 50 rows)
       \<longrightarrow> dict_get r ''values'' = Some (PList (map (cell_text rt) (take 50 rows)))
           \<and> dict_get r ''distinct_count'' = Some (PInt (int (length (take 50 rows))))
           \<and> qo_limit opts = 50"
  using assms
  by (auto simp: tool_get_distinct_values_def Let_def dict_get_def py_take_def
      collect_values_map split: sum.splits prod.splits)

lemma execute_sql_prefix:
  assumes "tool_execute_sql dbs dbid q sn cat 50 = (r, calls)"
  shows "dbs dbid = Some database
         \<and> calls = [LookupDatabase dbid, RunQuery sql opts]
         \<and> run_query database sql opts = Inr (rows, columns)
       \<longrightarrow> dict_get r ''data'' = Some (PList (take 50 rows))
           \<and> dict_get r ''row_count'' = Some (PInt (int (length (take 50 rows))))
           \<and> qo_limit opts = 50"
  using assms
  by (auto simp: tool_execute_sql_def Let_def dict_get_def py_take_def
      split: pyval.splits if_splits sum.splits prod.splits)

section \<open>The dispatcher on names and arguments it does not expect\<close>

lemma execute_tool_unknown_name:
  "tool_name \<notin> FRONTEND_ACTIONS \<Longrightarrow> tool_name \<notin> SERVER_TOOLS
     \<Longrightarrow> execute_tool rt dbs tool_name arguments ctx
           = Inr ([(''error'', PStr (''Unknown tool: '' @ tool_name))], [])"
  by (simp add: execute_tool_def SERVER_TOOLS_def error_result_def)

lemma execute_tool_missing_key:
  "execute_tool rt dbs ''list_tables'' (PDict []) ctx = Inl (KeyError ''schema_name'')"
  by (simp add: execute_tool_def FRONTEND_ACTIONS_def)

lemma undecodable_arguments_become_empty:
  "json_loads rt text = None \<Longrightarrow> parse_tool_args rt text = PDict []"
  by (simp add: parse_tool_args_def)

section \<open>The frontend action with its declared argument\<close>

text \<open>
  A call named \<^verbatim>\<open>set_editor_sql\<close> is not executed on the server: for every argument
  mapping the dispatcher returns the action marker overlaid with the arguments and makes no
  collaborator call. For a call whose argument text decodes to the mapping with the one key
  \<^verbatim>\<open>sql\<close>, the result is exactly the marker and that argument; the batch loop appends the
  action with type \<^verbatim>\<open>set_editor_sql\<close> and the argument, the step, and a tool message with the
  call's id whose content is the serialized result; the generator yields the step and the
  action and appends the same message.
\<close>

lemma set_editor_sql_relayed_for_sql_argument:
  "execute_tool rt dbs ''set_editor_sql'' (PDict args) ctx
     = Inr (dict_merge [(''action'', PStr ''set_editor_sql'')] args, [])
   \<and> (tc_name tc = ''set_editor_sql''
        \<and> json_loads (env_rt env) (tc_arguments tc) = Some (PDict [(''sql'', v)])
      \<longrightarrow> execute_tool (env_rt env) (env_dbs env) (tc_name tc)
              (parse_tool_args (env_rt env) (tc_arguments tc)) ctx
            = Inr ([(''action'', PStr ''set_editor_sql''), (''sql'', v)], [])
          \<and> handle_tool_call env ctx tc st
            = Inr (st\<lparr>actions := actions st @ [[(''type'', PStr ''set_editor_sql''), (''sql'', v)]],
                      steps := steps st
                        @ [\<lparr>step_type = ''tool_call'', step_tool = ''set_editor_sql'',
                            step_args = PDict [(''sql'', v)],
                            step_result_summary = ''Frontend action: set_editor_sql''\<rparr>],
                      llm_messages := llm_messages st
                        @ [ToolMsg (tc_id tc)
                             (json_dumps (env_rt env)
                                (PDict [(''action'', PStr ''set_editor_sql''), (''sql'', v)]))]\<rparr>)
          \<and> stream_tool_call env ctx tc sst
            = (sst\<lparr>s_events := s_events sst
                      @ [StepEvent \<lparr>step_type = ''tool_call'', step_tool = ''set_editor_sql'',
                                    step_args = PDict [(''sql'', v)],
                                    step_result_summary = ''Frontend action: set_editor_sql''\<rparr>,
                         ActionEvent [(''type'', PStr ''set_editor_sql''), (''sql'', v)]],
                    s_llm_messages := s_llm_messages sst
                      @ [ToolMsg (tc_id tc)
                           (json_dumps (env_rt env)
                              (PDict [(''action'', PStr ''set_editor_sql''), (''sql'', v)]))]\<rparr>,
               None))"
proof (intro conjI impI)
  show "execute_tool rt dbs ''set_editor_sql'' (PDict args) ctx
     = Inr (dict_merge [(''action'', PStr ''set_editor_sql'')] args, [])"
    by (simp add: execute_tool_def FRONTEND_ACTIONS_def)
next
  assume h: "tc_name tc = ''set_editor_sql''
        \<and> json_loads (env_rt env) (tc_arguments tc) = Some (PDict [(''sql'', v)])"
  then have p: "parse_tool_args (env_rt env) (tc_arguments tc) = PDict [(''sql'', v)]"
    by (simp add: parse_tool_args_def)
  have e: "execute_tool (env_rt env) (env_dbs env) ''set_editor_sql'' (PDict [(''sql'', v)]) ctx
            = Inr ([(''action'', PStr ''set_editor_sql''), (''sql'', v)], [])"
    by (simp add: execute_tool_def FRONTEND_ACTIONS_def dict_merge_def)
  have s: "summarize_result (env_rt env) [(''action'', PStr ''set_editor_sql''), (''sql'', v)]
            = Inr ''Frontend action: set_editor_sql''"
    by (simp add: summarize_result_def dict_get_def py_str_def)
  have a: "make_action ''set_editor_sql'' (PDict [(''sql'', v)])
            = Inr [(''type'', PStr ''set_editor_sql''), (''sql'', v)]"
    by (simp add: make_action_def dict_merge_def)
  from h p e show "execute_tool (env_rt env) (env_dbs env) (tc_name tc)
              (parse_tool_args (env_rt env) (tc_arguments tc)) ctx
            = Inr ([(''action'', PStr ''set_editor_sql''), (''sql'', v)], [])"
    by simp
  from h p e s a show "handle_tool_call env ctx tc st
            = Inr (st\<lparr>actions := actions st @ [[(''type'', PStr ''set_editor_sql''), (''sql'', v)]],
                      steps := steps st
                        @ [\<lparr>step_type = ''tool_call'', step_tool = ''set_editor_sql'',
                            step_args = PDict [(''sql'', v)],
                            step_result_summary = ''Frontend action: set_editor_sql''\<rparr>],
                      llm_messages := llm_messages st
                        @ [ToolMsg (tc_id tc)
                             (json_dumps (env_rt env)
                                (PDict [(''action'', PStr ''set_editor_sql''), (''sql'', v)]))]\<rparr>)"
    by (simp add: handle_tool_call_def Let_def make_step_def FRONTEND_ACTIONS_def)
  from h p e s a show "stream_tool_call env ctx tc sst
            = (sst\<lparr>s_events := s_events sst
                      @ [StepEvent \<lparr>step_type = ''tool_call'', step_tool = ''set_editor_sql'',
                                    step_args = PDict [(''sql'', v)],
                                    step_result_summary = ''Frontend action: set_editor_sql''\<rparr>,
                         ActionEvent [(''type'', PStr ''set_editor_sql''), (''sql'', v)]],
                    s_llm_messages := s_llm_messages sst
                      @ [ToolMsg (tc_id tc)
                           (json_dumps (env_rt env)
                              (PDict [(''action'', PStr ''set_editor_sql''), (''sql'', v)]))]\<rparr>,
               None)"
    by (simp add: stream_tool_call_def Let_def make_step_def FRONTEND_ACTIONS_def)
qed

text \<open>The same through the loops over the calls of a round: a round whose only call is such
  a call ends in the state with the action, the step and the tool message added.\<close>

lemma set_editor_sql_relayed_in_the_loop:
  assumes "tc_name tc = ''set_editor_sql''"
    and "json_loads (env_rt env) (tc_arguments tc) = Some (PDict [(''sql'', v)])"
  shows "run_tool_calls env ctx [tc] st
            = Inr (st\<lparr>actions := actions st @ [[(''type'', PStr ''set_editor_sql''), (''sql'', v)]],
                      steps := steps st
                        @ [\<lparr>step_type = ''tool_call'', step_tool = ''set_editor_sql'',
                            step_args = PDict [(''sql'', v)],
                            step_result_summary = ''Frontend action: set_editor_sql''\<rparr>],
                      llm_messages := llm_messages st
                        @ [ToolMsg (tc_id tc)
                             (json_dumps (env_rt env)
                                (PDict [(''action'', PStr ''set_editor_sql''), (''sql'', v)]))]\<rparr>)"
    and "stream_tool_calls env ctx [tc] sst
            = (sst\<lparr>s_events := s_events sst
                      @ [StepEvent \<lparr>step_type = ''tool_call'', step_tool = ''set_editor_sql'',
                                    step_args = PDict [(''sql'', v)],
                                    step_result_summary = ''Frontend action: set_editor_sql''\<rparr>,
                         ActionEvent [(''type'', PStr ''set_editor_sql''), (''sql'', v)]],
                    s_llm_messages := s_llm_messages sst
                      @ [ToolMsg (tc_id tc)
                           (json_dumps (env_rt env)
                              (PDict [(''action'', PStr ''set_editor_sql''), (''sql'', v)]))]\<rparr>,
               None)"
  using set_editor_sql_relayed_for_sql_argument [of _ _ "[]" ctx tc env v st sst] assms
  by simp_all

lemma set_editor_sql_relayed_example:
  \<open>tc_name editor_call = ''set_editor_sql''
   \<and> json_loads (env_rt (demo_env two_round_script)) (tc_arguments editor_call)
        = Some (PDict [(''sql'', PStr ''SELECT 1'')])
   \<and> handle_tool_call (demo_env two_round_script) demo_ctx editor_call
        (initial_state ''p'' demo_messages)
      = Inr ((initial_state ''p'' demo_messages)
               \<lparr>actions := [[(''type'', PStr ''set_editor_sql''), (''sql'', PStr ''SELECT 1'')]],
                steps := [\<lparr>step_type = ''tool_call'', step_tool = ''set_editor_sql'',
                           step_args = PDict [(''sql'', PStr ''SELECT 1'')],
                           step_result_summary = ''Frontend action: set_editor_sql''\<rparr>],
                llm_messages := initial_messages ''p'' demo_messages
                  @ [ToolMsg ''call_7'' ''{"action": "set_editor_sql", "sql": "SELECT 1"}'']\<rparr>)\<close>
proof -
  have a: "tc_name editor_call = ''set_editor_sql''"
    by (simp add: editor_call_def)
  have b: "json_loads (env_rt (demo_env two_round_script)) (tc_arguments editor_call)
        = Some (PDict [(''sql'', PStr ''SELECT 1'')])"
    by code_simp
  have c: \<open>json_dumps (env_rt (demo_env two_round_script))
             (PDict [(''action'', PStr ''set_editor_sql''), (''sql'', PStr ''SELECT 1'')])
           = ''{"action": "set_editor_sql", "sql": "SELECT 1"}''\<close>
    by code_simp
  have d: "tc_id editor_call = ''call_7''"
    by (simp add: editor_call_def)
  from set_editor_sql_relayed_for_sql_argument
         [of demo_rt demo_dbs "[]" demo_ctx editor_call "demo_env two_round_script"
             "PStr ''SELECT 1''" "initial_state ''p'' demo_messages"]
       a b c d
  show ?thesis by (simp add: initial_state_def)
qed

section \<open>Claims about the tool registry\<close>

text \<open>
  Claim C1: for every tool name and every parsed argument mapping the dispatcher returns a
  result mapping and never raises; an unknown name gives an error result, and a server tool
  called without a required field gives an error result, the loop recording a step and
  going on. The code returns an error result for unknown names (\<open>execute_tool_unknown_name\<close>),
  but it reads the required fields with a subscript outside every handler: with the empty
  mapping \<^verbatim>\<open>list_tables\<close> raises KeyError, and the exception leaves both loops, which
  record no step and yield no event.
\<close>

theorem execute_tool_missing_required_field:
  "execute_tool demo_rt demo_dbs ''list_tables'' (PDict []) demo_ctx
     = Inl (KeyError ''schema_name'')
   \<and> run_agent (demo_env invalid_json_script) (demo_cfg 10) demo_ctx demo_messages
       = Inl (KeyError ''schema_name'')
   \<and> run_agent_stream (demo_env invalid_json_script) (demo_cfg 10) demo_ctx demo_messages
       = ([], Some (KeyError ''schema_name''))"
  by code_simp



text \<open>
  Claim C7: every call named \<^verbatim>\<open>set_editor_sql\<close> is answered without server-side execution
  by the mapping of the marker \<^verbatim>\<open>action: set_editor_sql\<close> and the \<^verbatim>\<open>sql\<close> argument; the
  loop records or emits an action of type \<^verbatim>\<open>set_editor_sql\<close> with that argument and appends
  a tool message with the serialized result and the call's id. The dispatcher makes no
  collaborator call, and for arguments that hold \<^verbatim>\<open>sql\<close> alone the code does all of this
  (\<open>set_editor_sql_relayed_for_sql_argument\<close>, \<open>set_editor_sql_relayed_in_the_loop\<close>). But the
  marker and the type are written before the arguments are spread over them, and the result
  is summarized by its keys: in one invocation, a call with a \<^verbatim>\<open>type\<close> argument is recorded
  and emitted as an action of type \<^verbatim>\<open>evil\<close>, and a call with an \<^verbatim>\<open>action\<close> argument is
  answered with the marker \<^verbatim>\<open>noop\<close>, which is also what the tool message feeds back; a call
  with a numeric \<^verbatim>\<open>error\<close> argument makes the summarizer raise TypeError out of the loop.
\<close>

theorem set_editor_sql_marker_overridden:
  \<open>\<not> isl overriding_trace
   \<and> rr_actions (fst (projr overriding_trace))
       = [[(''type'', PStr ''evil''), (''sql'', PStr ''SELECT 1'')],
          [(''type'', PStr ''set_editor_sql''), (''action'', PStr ''noop''),
           (''sql'', PStr ''SELECT 2'')]]
   \<and> map action_type (rr_actions (fst (projr overriding_trace)))
       = [Some (PStr ''evil''), Some (PStr ''set_editor_sql'')]
   \<and> execute_tool demo_rt demo_dbs ''set_editor_sql''
         (PDict [(''action'', PStr ''noop''), (''sql'', PStr ''SELECT 2'')]) demo_ctx
       = Inr ([(''action'', PStr ''noop''), (''sql'', PStr ''SELECT 2'')], [])
   \<and> drop 3 (llm_messages (snd (projr overriding_trace)))
       = [ToolMsg ''call_1'' ''{"action": "set_editor_sql", "type": "evil", "sql": "SELECT 1"}'',
          ToolMsg ''call_2'' ''{"action": "noop", "sql": "SELECT 2"}'']
   \<and> snd overriding_stream = None
   \<and> action_events (fst overriding_stream)
       = [[(''type'', PStr ''evil''), (''sql'', PStr ''SELECT 1'')],
          [(''type'', PStr ''set_editor_sql''), (''action'', PStr ''noop''),
           (''sql'', PStr ''SELECT 2'')]]
   \<and> error_key_run = Inl TypeError\<close>
  by code_simp

text \<open>
  Claim C9, as stated: the schema-exploration tools \<^verbatim>\<open>sample_table_data\<close> and
  \<^verbatim>\<open>get_distinct_values\<close> cut their rows to the sampling cap of the execution context. The
  dispatcher passes the sampling cap to \<^verbatim>\<open>sample_table_data\<close> only;
  \<^verbatim>\<open>get_distinct_values\<close> runs with its own default of 50. With a sampling cap of 2 and
  three rows in the table it returns three values.
\<close>

theorem distinct_values_ignore_sampling_cap:
  "max_sample_rows demo_ctx = 2
   \<and> \<not> isl distinct_run
   \<and> dict_get (fst (projr distinct_run)) ''values''
       = Some (PList [PStr ''1'', PStr ''2'', PStr ''3''])
   \<and> dict_get (fst (projr distinct_run)) ''distinct_count'' = Some (PInt 3)
   \<and> \<not> capped_result (fst (projr distinct_run)) ''values'' ''distinct_count''
         (max_sample_rows demo_ctx)"
  by code_simp

text \<open>
  Claim C9, amended: whenever the dispatcher returns, the result of \<^verbatim>\<open>sample_table_data\<close> is
  capped by the sampling cap of the execution context (for a cap that is not negative), the
  result of \<^verbatim>\<open>get_distinct_values\<close> is capped by the fixed bound 50, and the result of
  \<^verbatim>\<open>execute_sql\<close> is capped by the fixed bound 50: each is an error result, or its list has at
  most that many entries and the reported count is the length of the list. The cut is made on
  the rows retrieved: when the query the tool ran returned rows, the list in the result is
  the first cap of them (for \<^verbatim>\<open>get_distinct_values\<close> the texts of the first 50, provided none
  of these rows is an empty dictionary), and the count is the length of that list.
\<close>

theorem row_caps:
  "(execute_tool rt dbs ''sample_table_data'' arguments ctx = Inr (r, calls)
      \<and> 0 \<le> max_sample_rows ctx
    \<longrightarrow> capped_result r ''data'' ''row_count'' (max_sample_rows ctx))
   \<and> (execute_tool rt dbs ''get_distinct_values'' arguments ctx = Inr (r, calls)
    \<longrightarrow> capped_result r ''values'' ''distinct_count'' 50)
   \<and> (execute_tool rt dbs ''execute_sql'' arguments ctx = Inr (r, calls)
    \<longrightarrow> capped_result r ''data'' ''row_count'' 50)
   \<and> (execute_tool rt dbs ''sample_table_data'' arguments ctx = Inr (r, calls)
      \<and> 0 \<le> max_sample_rows ctx
      \<and> dbs (database_id ctx) = Some database
      \<and> calls = [LookupDatabase (database_id ctx), RunQuery sql opts]
      \<and> run_query database sql opts = Inr (rows, columns)
    \<longrightarrow> dict_get r ''data'' = Some (PList (take (nat (max_sample_rows ctx)) rows))
        \<and> dict_get r ''row_count''
            = Some (PInt (int (length (take (nat (max_sample_rows ctx)) rows))))
        \<and> qo_limit opts = max_sample_rows ctx)
   \<and> (execute_tool rt dbs ''get_distinct_values'' arguments ctx = Inr (r, calls)
      \<and> dbs (database_id ctx) = Some database
      \<and> calls = [LookupDatabase (database_id ctx), RunQuery sql opts]
      \<and> run_query database sql opts = Inr (rows, columns)
      \<and> PDict [] \<notin> set (take 50 rows)
    \<longrightarrow> dict_get r ''values'' = Some (PList (map (cell_text rt) (take 50 rows)))
        \<and> dict_get r ''distinct_count'' = Some (PInt (int (length (take 50 rows))))
        \<and> qo_limit opts = 50)
   \<and> (execute_tool rt dbs ''execute_sql'' arguments ctx = Inr (r, calls)
      \<and> dbs (database_id ctx) = Some database
      \<and> calls = [LookupDatabase (database_id ctx), RunQuery sql opts]
      \<and> run_query database sql opts = Inr (rows, columns)
    \<longrightarrow> dict_get r ''data'' = Some (PList (take 50 rows))
        \<and> dict_get r ''row_count'' = Some (PInt (int (length (take 50 rows))))
        \<and> qo_limit opts = 50)"
proof (intro conjI impI)
  assume "execute_tool rt dbs ''sample_table_data'' arguments ctx = Inr (r, calls)
      \<and> 0 \<le> max_sample_rows ctx"
  then show "capped_result r ''data'' ''row_count'' (max_sample_rows ctx)"
    by (auto simp: execute_tool_def FRONTEND_ACTIONS_def split: sum.splits
        dest: sample_capped)
next
  assume "execute_tool rt dbs ''get_distinct_values'' arguments ctx = Inr (r, calls)"
  then show "capped_result r ''values'' ''distinct_count'' 50"
    by (auto simp: execute_tool_def FRONTEND_ACTIONS_def split: sum.splits
        dest: distinct_capped)
next
  assume "execute_tool rt dbs ''execute_sql'' arguments ctx = Inr (r, calls)"
  then show "capped_result r ''data'' ''row_count'' 50"
    by (auto simp: execute_tool_def FRONTEND_ACTIONS_def split: sum.splits
        dest: execute_sql_capped)
next
  assume h: "execute_tool rt dbs ''sample_table_data'' arguments ctx = Inr (r, calls)
      \<and> 0 \<le> max_sample_rows ctx
      \<and> dbs (database_id ctx) = Some database
      \<and> calls = [LookupDatabase (database_id ctx), RunQuery sql opts]
      \<and> run_query database sql opts = Inr (rows, columns)"
  then obtain tn sn where
    "tool_sample_table_data rt dbs (database_id ctx) tn sn (catalog ctx) (max_sample_rows ctx)
       = (r, calls)"
    by (auto simp: execute_tool_def FRONTEND_ACTIONS_def split: sum.splits)
  from sample_prefix [OF this] h
  show "dict_get r ''data'' = Some (PList (take (nat (max_sample_rows ctx)) rows))"
    and "dict_get r ''row_count''
            = Some (PInt (int (length (take (nat (max_sample_rows ctx)) rows))))"
    and "qo_limit opts = max_sample_rows ctx"
    by blast+
next
  assume h: "execute_tool rt dbs ''get_distinct_values'' arguments ctx = Inr (r, calls)
      \<and> dbs (database_id ctx) = Some database
      \<and> calls = [LookupDatabase (database_id ctx), RunQuery sql opts]
      \<and> run_query database sql opts = Inr (rows, columns)
      \<and> PDict [] \<notin> set (take 50 rows)"
  then obtain tn sn cn where
    "tool_get_distinct_values rt dbs (database_id ctx) tn sn cn (catalog ctx) 50 = (r, calls)"
    by (auto simp: execute_tool_def FRONTEND_ACTIONS_def split: sum.splits)
  from distinct_prefix [OF this] h
  show "dict_get r ''values'' = Some (PList (map (cell_text rt) (take 50 rows)))"
    and "dict_get r ''distinct_count'' = Some (PInt (int (length (take 50 rows))))"
    and "qo_limit opts = 50"
    by blast+
next
  assume h: "execute_tool rt dbs ''execute_sql'' arguments ctx = Inr (r, calls)
      \<and> dbs (database_id ctx) = Some database
      \<and> calls = [LookupDatabase (database_id ctx), RunQuery sql opts]
      \<and> run_query database sql opts = Inr (rows, columns)"
  then obtain q where
    "tool_execute_sql dbs (database_id ctx) q (schema_name ctx) (catalog ctx) 50 = (r, calls)"
    by (auto simp: execute_tool_def FRONTEND_ACTIONS_def split: sum.splits)
  from execute_sql_prefix [OF this] h
  show "dict_get r ''data'' = Some (PList (take 50 rows))"
    and "dict_get r ''row_count'' = Some (PInt (int (length (take 50 rows))))"
    and "qo_limit opts = 50"
    by blast+
qed

theorem row_caps_witness:
  "0 \<le> max_sample_rows demo_ctx
   \<and> max_sample_rows demo_ctx = 2
   \<and> demo_dbs (database_id demo_ctx) = Some demo_database
   \<and> run_query demo_database sample_query sample_options = Inr (demo_rows, [''id''])
   \<and> execute_tool demo_rt demo_dbs ''sample_table_data'' sample_args demo_ctx
       = Inr (sample_result, [LookupDatabase 1, RunQuery sample_query sample_options])
   \<and> capped_result sample_result ''data'' ''row_count'' 2
   \<and> dict_get sample_result ''data'' = Some (PList (take 2 demo_rows))
   \<and> PDict [] \<notin> set (take 50 demo_rows)
   \<and> execute_tool demo_rt demo_dbs ''get_distinct_values'' distinct_args demo_ctx
       = Inr (distinct_result, [LookupDatabase 1, RunQuery distinct_query distinct_options])
   \<and> capped_result distinct_result ''values'' ''distinct_count'' 50
   \<and> dict_get distinct_result ''values'' = Some (PList (map (cell_text demo_rt) (take 50 demo_rows)))
   \<and> execute_tool demo_rt demo_dbs ''execute_sql'' sql_args demo_ctx
       = Inr (sql_result, [LookupDatabase 1, RunQuery ''SELECT id FROM orders'' sql_options])
   \<and> capped_result sql_result ''data'' ''row_count'' 50
   \<and> dict_get sql_result ''data'' = Some (PList (take 50 demo_rows))"
proof -
  have cap: "0 \<le> max_sample_rows demo_ctx" "max_sample_rows demo_ctx = 2"
    "database_id demo_ctx = 1"
    by (simp_all add: demo_ctx_def)
  have db: "demo_dbs (database_id demo_ctx) = Some demo_database"
    by (simp add: demo_dbs_def demo_ctx_def)
  have q: "run_query demo_database sample_query sample_options = Inr (demo_rows, [''id''])"
    "run_query demo_database distinct_query distinct_options = Inr (demo_rows, [''id''])"
    "run_query demo_database ''SELECT id FROM orders'' sql_options = Inr (demo_rows, [''id''])"
    by (simp_all add: demo_database_def demo_rows_def)
  have rows: "PDict [] \<notin> set (take 50 demo_rows)"
    by (simp add: demo_rows_def)
  have a: "execute_tool demo_rt demo_dbs ''sample_table_data'' sample_args demo_ctx
       = Inr (sample_result, [LookupDatabase 1, RunQuery sample_query sample_options])"
    by code_simp
  have b: "execute_tool demo_rt demo_dbs ''get_distinct_values'' distinct_args demo_ctx
       = Inr (distinct_result, [LookupDatabase 1, RunQuery distinct_query distinct_options])"
    by code_simp
  have c: "execute_tool demo_rt demo_dbs ''execute_sql'' sql_args demo_ctx
       = Inr (sql_result, [LookupDatabase 1, RunQuery ''SELECT id FROM orders'' sql_options])"
    by code_simp
  note A = row_caps [of demo_rt demo_dbs sample_args demo_ctx sample_result
                        "[LookupDatabase 1, RunQuery sample_query sample_options]"
                        demo_database sample_query sample_options demo_rows "[''id'']"]
  note B = row_caps [of demo_rt demo_dbs distinct_args demo_ctx distinct_result
                        "[LookupDatabase 1, RunQuery distinct_query distinct_options]"
                        demo_database distinct_query distinct_options demo_rows "[''id'']"]
  note C = row_caps [of demo_rt demo_dbs sql_args demo_ctx sql_result
                        "[LookupDatabase 1, RunQuery ''SELECT id FROM orders'' sql_options]"
                        demo_database "''SELECT id FROM orders''" sql_options demo_rows "[''id'']"]
  from A a cap db q have d: "capped_result sample_result ''data'' ''row_count'' 2"
    and d': "dict_get sample_result ''data'' = Some (PList (take 2 demo_rows))"
    by simp_all
  from B b cap db q rows have e: "capped_result distinct_result ''values'' ''distinct_count'' 50"
    and e': "dict_get distinct_result ''values''
               = Some (PList (map (cell_text demo_rt) (take 50 demo_rows)))"
    by simp_all
  from C c cap db q have f: "capped_result sql_result ''data'' ''row_count'' 50"
    and f': "dict_get sql_result ''data'' = Some (PList (take 50 demo_rows))"
    by simp_all
  from cap db q rows a b c d d' e e' f f' show ?thesis by blast
qed

section \<open>Claims about the orchestration loop\<close>

text \<open>
  Claim C2: with a budget of N rounds and an adapter that asks for tools on every round,
  the loop calls the adapter exactly N times and ends with the fixed message, the warning
  marker, the accumulated actions, steps and usage, and no error flag. This holds whenever
  every dispatch returns (\<open>budget_exhausted_when_dispatch_returns\<close>). The code breaks it when
  a requested call lacks a required field: with a budget of two rounds and an adapter that
  asks for \<^verbatim>\<open>list_tables\<close> without arguments every time, the first dispatch raises
  KeyError, the batch loop returns nothing, and the generator stops after one adapter call
  without having yielded any event.
\<close>

theorem budget_run_aborted_by_dispatch:
  "run_agent (demo_env always_list_tables) (demo_cfg 2) demo_ctx demo_messages
     = Inl (KeyError ''schema_name'')
   \<and> snd aborted_stream_run = Some (KeyError ''schema_name'')
   \<and> s_events (fst aborted_stream_run) = []
   \<and> s_provider_calls (fst aborted_stream_run) = 1"
  by code_simp

text \<open>
  Claim C3: when an invocation returns, each field of the returned usage is the sum of
  that field over the usage objects of the completions the adapter returned in this
  invocation, a missing field counting as zero. The completions summed are the adapter's
  answers to the successive calls, every successful round is among them whatever the round
  went on to do, and the adapter was called once more only when the run ended in a provider
  error.
\<close>

theorem usage_is_sum_of_rounds:
  assumes "run_agent_trace env cfg ctx messages = Inr (r, st)"
  shows "prompt_tokens (rr_usage r) = sum_list (map round_prompt_tokens (received st))
       \<and> completion_tokens (rr_usage r) = sum_list (map round_completion_tokens (received st))
       \<and> total_tokens (rr_usage r) = sum_list (map round_total_tokens (received st))
       \<and> answered_by env (received st)
       \<and> provider_calls st = length (received st) + (if rr_error r then 1 else 0)"
proof -
  let ?st0 = "initial_state (system_prompt cfg) messages"
  have run: "agent_rounds env ctx (nat (max_tool_rounds cfg)) ?st0 = Inr (r, st)"
    using assms by (simp add: run_agent_trace_def)
  have "rr_usage r = usage_sum (received st)"
    using agent_rounds_inv [OF loop_inv_initial run] by (simp add: loop_inv_def)
  moreover have "answered_by env (received st)
       \<and> provider_calls st = length (received st) + (if rr_error r then 1 else 0)"
    by (rule agent_rounds_received [OF _ _ run]) (simp_all add: initial_state_def answered_by_def)
  ultimately show ?thesis by (simp add: usage_sum_def)
qed

theorem usage_is_sum_of_rounds_witness:
  "(case run_agent_trace (demo_env two_round_script) (demo_cfg 10) demo_ctx demo_messages of
      Inl e \<Rightarrow> False
    | Inr (r, st) \<Rightarrow>
        rr_usage r = \<lparr>prompt_tokens = 17, completion_tokens = 5, total_tokens = 24\<rparr>
        \<and> prompt_tokens (rr_usage r) = sum_list (map round_prompt_tokens (received st))
        \<and> completion_tokens (rr_usage r) = sum_list (map round_completion_tokens (received st))
        \<and> total_tokens (rr_usage r) = sum_list (map round_total_tokens (received st))
        \<and> length (received st) = 2)"
proof -
  let ?run = "run_agent_trace (demo_env two_round_script) (demo_cfg 10) demo_ctx demo_messages"
  have "(case ?run of
           Inl e \<Rightarrow> False
         | Inr (r, st) \<Rightarrow>
             rr_usage r = \<lparr>prompt_tokens = 17, completion_tokens = 5, total_tokens = 24\<rparr>
             \<and> length (received st) = 2)"
    by code_simp
  then obtain r st where run: "?run = Inr (r, st)"
    and vals: "rr_usage r = \<lparr>prompt_tokens = 17, completion_tokens = 5, total_tokens = 24\<rparr>"
      "length (received st) = 2"
    by (auto split: sum.splits prod.splits)
  from usage_is_sum_of_rounds [OF run] run vals show ?thesis by simp
qed

text \<open>
  Claim C4, as stated: when the adapter fails on round k, batch mode returns and streaming
  mode emits an error result whose usage is the usage accumulated over the rounds before.
  The generator's error event carries the error text only. Here the adapter fails on the
  second round after a first round that used 15 tokens: the generator has accumulated that
  usage, and neither of the two events it yields carries a usage.
\<close>

theorem stream_error_event_without_usage:
  "snd failing_stream_run = None
   \<and> s_total_usage (fst failing_stream_run)
       = \<lparr>prompt_tokens = 10, completion_tokens = 5, total_tokens = 15\<rparr>
   \<and> s_events (fst failing_stream_run)
       = [StepEvent list_schemas_step, ErrorEvent ''Error communicating with AI: boom'']
   \<and> map event_usage (s_events (fst failing_stream_run)) = [None, None]"
  by code_simp

text \<open>
  Claim C4, amended: let k rounds have been completed as tool rounds, ending in the state
  \<open>stk\<close> (the state in which a budget of k rounds runs out), and let the adapter fail on
  the next call. Then, with any larger budget, batch mode returns at once the error result
  whose usage, steps and actions are exactly those of \<open>stk\<close>, with the error flag and the
  error text, having made that one more adapter call; and the generator yields, after the
  events of the k rounds and unchanged, one error event that carries the error text and
  nothing else, and then stops.
\<close>

theorem provider_failure_stops_the_loop:
  "(agent_rounds env ctx k st0 = Inr (rk, stk) \<and> rr_warning rk \<noteq> None
      \<and> create_chat_completion env (provider_calls stk) (llm_messages stk) = Inl ex
    \<longrightarrow> agent_rounds env ctx (k + Suc m) st0
          = Inr (\<lparr>rr_response = PStr (''Error communicating with AI: '' @ ex),
                   rr_actions = actions stk, rr_steps = steps stk,
                   rr_usage = total_usage stk, rr_error = True, rr_warning = None\<rparr>,
                 stk\<lparr>provider_calls := Suc (provider_calls stk)\<rparr>))
   \<and> (stream_rounds env ctx k s0
          = (sk\<lparr>s_events := s_events sk @ [budget_event (s_total_usage sk)]\<rparr>, None)
      \<and> create_chat_completion env (s_provider_calls sk) (s_llm_messages sk) = Inl ex
    \<longrightarrow> stream_rounds env ctx (k + Suc m) s0
          = (sk\<lparr>s_events := s_events sk @ [ErrorEvent (''Error communicating with AI: '' @ ex)],
                s_provider_calls := Suc (s_provider_calls sk)\<rparr>, None))"
proof (intro conjI impI)
  assume h: "agent_rounds env ctx k st0 = Inr (rk, stk) \<and> rr_warning rk \<noteq> None
      \<and> create_chat_completion env (provider_calls stk) (llm_messages stk) = Inl ex"
  then have "agent_rounds env ctx (k + Suc m) st0 = agent_rounds env ctx (Suc m) stk"
    using agent_rounds_extend by blast
  with h show "agent_rounds env ctx (k + Suc m) st0
          = Inr (\<lparr>rr_response = PStr (''Error communicating with AI: '' @ ex),
                   rr_actions = actions stk, rr_steps = steps stk,
                   rr_usage = total_usage stk, rr_error = True, rr_warning = None\<rparr>,
                 stk\<lparr>provider_calls := Suc (provider_calls stk)\<rparr>)"
    by (simp add: provider_error_result_def)
next
  assume h: "stream_rounds env ctx k s0
          = (sk\<lparr>s_events := s_events sk @ [budget_event (s_total_usage sk)]\<rparr>, None)
      \<and> create_chat_completion env (s_provider_calls sk) (s_llm_messages sk) = Inl ex"
  then have "stream_rounds env ctx (k + Suc m) s0 = stream_rounds env ctx (Suc m) sk"
    using stream_rounds_extend by blast
  with h show "stream_rounds env ctx (k + Suc m) s0
          = (sk\<lparr>s_events := s_events sk @ [ErrorEvent (''Error communicating with AI: '' @ ex)],
                s_provider_calls := Suc (s_provider_calls sk)\<rparr>, None)"
    by simp
qed

theorem provider_failure_stops_the_loop_witness:
  "agent_rounds (demo_env failing_script) demo_ctx 1
       (initial_state ''You are an AI SQL assistant.'' demo_messages)
     = Inr (budget_result after_round_1, after_round_1)
   \<and> rr_warning (budget_result after_round_1) \<noteq> None
   \<and> create_chat_completion (demo_env failing_script) (provider_calls after_round_1)
        (llm_messages after_round_1) = Inl ''boom''
   \<and> agent_rounds (demo_env failing_script) demo_ctx (1 + Suc 8)
        (initial_state ''You are an AI SQL assistant.'' demo_messages)
       = Inr (\<lparr>rr_response = PStr ''Error communicating with AI: boom'',
                rr_actions = [],
                rr_steps = [list_schemas_step],
                rr_usage = \<lparr>prompt_tokens = 10, completion_tokens = 5, total_tokens = 15\<rparr>,
                rr_error = True, rr_warning = None\<rparr>,
              after_round_1\<lparr>provider_calls := 2\<rparr>)
   \<and> stream_rounds (demo_env failing_script) demo_ctx 1
        (initial_stream_state ''You are an AI SQL assistant.'' demo_messages)
       = (stream_after_round_1
            \<lparr>s_events := s_events stream_after_round_1
               @ [budget_event (s_total_usage stream_after_round_1)]\<rparr>, None)
   \<and> s_events (fst (stream_rounds (demo_env failing_script) demo_ctx (1 + Suc 8)
                       (initial_stream_state ''You are an AI SQL assistant.'' demo_messages)))
       = [StepEvent list_schemas_step, ErrorEvent ''Error communicating with AI: boom'']"
proof -
  let ?env = "demo_env failing_script"
  let ?st0 = "initial_state ''You are an AI SQL assistant.'' demo_messages"
  let ?s0 = "initial_stream_state ''You are an AI SQL assistant.'' demo_messages"
  have a: "agent_rounds ?env demo_ctx 1 ?st0 = Inr (budget_result after_round_1, after_round_1)"
    by code_simp
  have b: "rr_warning (budget_result after_round_1) \<noteq> None"
    by (simp add: budget_result_def)
  have c: "create_chat_completion ?env (provider_calls after_round_1) (llm_messages after_round_1)
             = Inl ''boom''"
    by code_simp
  have d: "stream_rounds ?env demo_ctx 1 ?s0
             = (stream_after_round_1
                  \<lparr>s_events := s_events stream_after_round_1
                     @ [budget_event (s_total_usage stream_after_round_1)]\<rparr>, None)"
    by code_simp
  have e: "create_chat_completion ?env (s_provider_calls stream_after_round_1)
             (s_llm_messages stream_after_round_1) = Inl ''boom''"
    by code_simp
  note T = provider_failure_stops_the_loop
             [of ?env demo_ctx 1 ?st0 "budget_result after_round_1" after_round_1 "''boom''" 8
                 ?s0 stream_after_round_1]
  from T a b c have f: "agent_rounds ?env demo_ctx (1 + Suc 8) ?st0
          = Inr (\<lparr>rr_response = PStr (''Error communicating with AI: '' @ ''boom''),
                   rr_actions = actions after_round_1, rr_steps = steps after_round_1,
                   rr_usage = total_usage after_round_1, rr_error = True, rr_warning = None\<rparr>,
                 after_round_1\<lparr>provider_calls := Suc (provider_calls after_round_1)\<rparr>)"
    by blast
  from T d e have g: "stream_rounds ?env demo_ctx (1 + Suc 8) ?s0
          = (stream_after_round_1
               \<lparr>s_events := s_events stream_after_round_1
                  @ [ErrorEvent (''Error communicating with AI: '' @ ''boom'')],
                s_provider_calls := Suc (s_provider_calls stream_after_round_1)\<rparr>, None)"
    by blast
  have f': "agent_rounds ?env demo_ctx (1 + Suc 8) ?st0
       = Inr (\<lparr>rr_response = PStr ''Error communicating with AI: boom'',
                rr_actions = [],
                rr_steps = [list_schemas_step],
                rr_usage = \<lparr>prompt_tokens = 10, completion_tokens = 5, total_tokens = 15\<rparr>,
                rr_error = True, rr_warning = None\<rparr>,
              after_round_1\<lparr>provider_calls := 2\<rparr>)"
    unfolding f by (simp add: after_round_1_def)
  have g': "s_events (fst (stream_rounds ?env demo_ctx (1 + Suc 8) ?s0))
       = [StepEvent list_schemas_step, ErrorEvent ''Error communicating with AI: boom'']"
    unfolding g by (simp add: stream_after_round_1_def after_round_1_def)
  from a b c d f' g' show ?thesis by blast
qed

text \<open>
  Claim C5, as stated: at every terminal state the number of steps is the number of
  actions plus the number of server-executed tool calls, and every action has a type from
  the frontend-action set. A call to a name outside the catalog is not executed on the
  server, yet the loop records a step for it: one such call gives one step, no action and no
  server-executed call. And the action is the type marker overlaid with the call's arguments,
  so arguments that carry a \<^verbatim>\<open>type\<close> key of their own decide the type of the action.
\<close>

theorem unknown_tool_breaks_step_count:
  "\<not> isl unknown_tool_run
   \<and> rr_error (fst (projr unknown_tool_run)) = False
   \<and> rr_warning (fst (projr unknown_tool_run)) = None
   \<and> length (rr_steps (fst (projr unknown_tool_run))) = 1
   \<and> length (rr_actions (fst (projr unknown_tool_run))) = 0
   \<and> length (server_executed (received (snd (projr unknown_tool_run)))) = 0
   \<and> length (rr_steps (fst (projr unknown_tool_run)))
       \<noteq> length (rr_actions (fst (projr unknown_tool_run)))
         + length (server_executed (received (snd (projr unknown_tool_run))))
   \<and> \<not> isl typed_arguments_run
   \<and> map action_type (rr_actions (projr typed_arguments_run)) = [Some (PStr ''evil'')]
   \<and> ''evil'' \<notin> FRONTEND_ACTIONS"
  by code_simp

text \<open>
  Claim C5, amended: at every terminal state of an invocation the steps are, in order, one
  per dispatched tool call, whatever the kind of the call; the actions are, in order, the
  actions of the dispatched calls that name a frontend action; so the number of steps is the
  number of actions plus the number of dispatched calls whose name is not a frontend action
  (catalog tools and unknown names alike). The generator that ends without an exception has
  yielded step events and action events in the same correspondence. The action of a call
  whose arguments carry no \<^verbatim>\<open>type\<close> key has the call's tool name as its type.
\<close>

theorem steps_and_actions_account_for_calls:
  "(run_agent_trace env cfg ctx messages = Inr (r, st)
    \<longrightarrow> map step_tool (rr_steps r) = map tc_name (dispatched (received st))
        \<and> rr_actions r = map (action_of (env_rt env)) (frontend_calls (dispatched (received st)))
        \<and> length (rr_steps r)
            = length (rr_actions r)
              + length (filter (\<lambda>tc. tc_name tc \<notin> FRONTEND_ACTIONS) (dispatched (received st))))
   \<and> (run_agent_stream_trace env cfg ctx messages = (s, None)
    \<longrightarrow> step_event_tools (s_events s) = map tc_name (dispatched (s_received s))
        \<and> action_events (s_events s)
            = map (action_of (env_rt env)) (frontend_calls (dispatched (s_received s))))
   \<and> (parse_tool_args rt (tc_arguments tc) = PDict args \<and> map_of args ''type'' = None
    \<longrightarrow> dict_get (action_of rt tc) ''type'' = Some (PStr (tc_name tc)))"
proof (intro conjI impI)
  assume "run_agent_trace env cfg ctx messages = Inr (r, st)"
  then have run: "agent_rounds env ctx (nat (max_tool_rounds cfg))
                    (initial_state (system_prompt cfg) messages) = Inr (r, st)"
    by (simp add: run_agent_trace_def)
  note inv = agent_rounds_inv [OF loop_inv_initial run]
  from inv show s: "map step_tool (rr_steps r) = map tc_name (dispatched (received st))"
    by (simp add: loop_inv_def)
  from inv show a: "rr_actions r
      = map (action_of (env_rt env)) (frontend_calls (dispatched (received st)))"
    by (simp add: loop_inv_def)
  have "length (rr_steps r) = length (dispatched (received st))"
    using s by (metis length_map)
  moreover have "length (rr_actions r) = length (frontend_calls (dispatched (received st)))"
    using a by simp
  moreover have "length (dispatched (received st))
      = length (frontend_calls (dispatched (received st)))
        + length (filter (\<lambda>tc. tc_name tc \<notin> FRONTEND_ACTIONS) (dispatched (received st)))"
    unfolding frontend_calls_def by (rule sum_length_filter_compl [symmetric])
  ultimately show "length (rr_steps r)
            = length (rr_actions r)
              + length (filter (\<lambda>tc. tc_name tc \<notin> FRONTEND_ACTIONS) (dispatched (received st)))"
    by simp
next
  assume "run_agent_stream_trace env cfg ctx messages = (s, None)"
  then have run: "stream_rounds env ctx (nat (max_tool_rounds cfg))
                    (initial_stream_state (system_prompt cfg) messages) = (s, None)"
    by (simp add: run_agent_stream_trace_def)
  note inv = stream_rounds_inv [OF stream_inv_initial run]
  from inv show "step_event_tools (s_events s) = map tc_name (dispatched (s_received s))"
    by simp
  from inv show "action_events (s_events s)
            = map (action_of (env_rt env)) (frontend_calls (dispatched (s_received s)))"
    by simp
next
  assume "parse_tool_args rt (tc_arguments tc) = PDict args \<and> map_of args ''type'' = None"
  then show "dict_get (action_of rt tc) ''type'' = Some (PStr (tc_name tc))"
    by (simp add: action_of_def dict_get_def map_of_dict_merge_other)
qed

theorem steps_and_actions_account_for_calls_witness:
  "(case run_agent_trace (demo_env mixed_script) (demo_cfg 10) demo_ctx demo_messages of
      Inl e \<Rightarrow> False
    | Inr (r, st) \<Rightarrow>
        map step_tool (rr_steps r) = [''list_schemas'', ''drop_database'', ''set_editor_sql'']
        \<and> rr_actions r = [[(''type'', PStr ''set_editor_sql''), (''sql'', PStr ''SELECT 1'')]]
        \<and> map step_tool (rr_steps r) = map tc_name (dispatched (received st))
        \<and> length (rr_steps r)
            = length (rr_actions r)
              + length (filter (\<lambda>tc. tc_name tc \<notin> FRONTEND_ACTIONS) (dispatched (received st))))
   \<and> (case run_agent_stream_trace (demo_env mixed_script) (demo_cfg 10) demo_ctx demo_messages of
        (s, e) \<Rightarrow>
          e = None
          \<and> step_event_tools (s_events s) = [''list_schemas'', ''drop_database'', ''set_editor_sql'']
          \<and> step_event_tools (s_events s) = map tc_name (dispatched (s_received s)))
   \<and> parse_tool_args demo_rt (tc_arguments editor_call) = PDict [(''sql'', PStr ''SELECT 1'')]
   \<and> map_of [(''sql'', PStr ''SELECT 1'')] ''type'' = None
   \<and> dict_get (action_of demo_rt editor_call) ''type'' = Some (PStr ''set_editor_sql'')"
proof -
  let ?env = "demo_env mixed_script"
  let ?b = "run_agent_trace ?env (demo_cfg 10) demo_ctx demo_messages"
  let ?s = "run_agent_stream_trace ?env (demo_cfg 10) demo_ctx demo_messages"
  have "case ?b of
          Inl e \<Rightarrow> False
        | Inr (r, st) \<Rightarrow>
            map step_tool (rr_steps r) = [''list_schemas'', ''drop_database'', ''set_editor_sql'']
            \<and> rr_actions r = [[(''type'', PStr ''set_editor_sql''), (''sql'', PStr ''SELECT 1'')]]"
    by code_simp
  then obtain r st where b: "?b = Inr (r, st)"
    and bv: "map step_tool (rr_steps r) = [''list_schemas'', ''drop_database'', ''set_editor_sql'']"
      "rr_actions r = [[(''type'', PStr ''set_editor_sql''), (''sql'', PStr ''SELECT 1'')]]"
    by (auto split: sum.splits prod.splits)
  have "case ?s of
          (s, e) \<Rightarrow> e = None
            \<and> step_event_tools (s_events s) = [''list_schemas'', ''drop_database'', ''set_editor_sql'']"
    by code_simp
  then obtain s where s: "?s = (s, None)"
    and sv: "step_event_tools (s_events s) = [''list_schemas'', ''drop_database'', ''set_editor_sql'']"
    by (auto split: prod.splits)
  have p: "parse_tool_args demo_rt (tc_arguments editor_call) = PDict [(''sql'', PStr ''SELECT 1'')]"
    by code_simp
  have q: "map_of [(''sql'', PStr ''SELECT 1'')] ''type'' = None"
    by simp
  have n: "tc_name editor_call = ''set_editor_sql''"
    by (simp add: editor_call_def)
  note T = steps_and_actions_account_for_calls
             [of ?env "demo_cfg 10" demo_ctx demo_messages r st s demo_rt editor_call
                 "[(''sql'', PStr ''SELECT 1'')]"]
  from T b have b1: "map step_tool (rr_steps r) = map tc_name (dispatched (received st))"
    and b2: "length (rr_steps r)
            = length (rr_actions r)
              + length (filter (\<lambda>tc. tc_name tc \<notin> FRONTEND_ACTIONS) (dispatched (received st)))"
    by blast+
  from T s have s1: "step_event_tools (s_events s) = map tc_name (dispatched (s_received s))"
    by blast
  from T p q n have t1: "dict_get (action_of demo_rt editor_call) ''type'' = Some (PStr ''set_editor_sql'')"
    by simp
  have B: "case ?b of
      Inl e \<Rightarrow> False
    | Inr (r, st) \<Rightarrow>
        map step_tool (rr_steps r) = [''list_schemas'', ''drop_database'', ''set_editor_sql'']
        \<and> rr_actions r = [[(''type'', PStr ''set_editor_sql''), (''sql'', PStr ''SELECT 1'')]]
        \<and> map step_tool (rr_steps r) = map tc_name (dispatched (received st))
        \<and> length (rr_steps r)
            = length (rr_actions r)
              + length (filter (\<lambda>tc. tc_name tc \<notin> FRONTEND_ACTIONS) (dispatched (received st)))"
    unfolding b sum.case prod.case using bv b1 b2 by blast
  have S: "case ?s of
        (s, e) \<Rightarrow>
          e = None
          \<and> step_event_tools (s_events s) = [''list_schemas'', ''drop_database'', ''set_editor_sql'']
          \<and> step_event_tools (s_events s) = map tc_name (dispatched (s_received s))"
    unfolding s prod.case using sv s1 by blast
  from B S p q t1 show ?thesis by blast
qed

text \<open>
  Claim C8: a tool call whose argument text does not parse as a key-value mapping goes on
  with the empty mapping, and the parse failure never ends the invocation. The code does
  this for text that is not JSON (\<open>undecodable_arguments_become_empty\<close>); text that is valid
  JSON of another shape is passed on as it was decoded. With the argument text \<^verbatim>\<open>[1]\<close> the
  arguments are the list, a tool with a required field and the frontend action both raise
  TypeError out of the loop, and a tool without arguments records the list in its step.
\<close>

theorem non_mapping_arguments_are_passed_on:
  "parse_tool_args demo_rt ''[1]'' = PList [PInt 1]
   \<and> list_arguments_run ''list_tables'' = Inl TypeError
   \<and> list_arguments_run ''set_editor_sql'' = Inl TypeError
   \<and> \<not> isl (list_arguments_run ''list_schemas'')
   \<and> map step_args (rr_steps (projr (list_arguments_run ''list_schemas''))) = [PList [PInt 1]]"
  by code_simp

text \<open>
  Claim C10: let k rounds have been completed as tool rounds, ending in the state \<open>stk\<close>,
  and let the next completion carry tool calls with a finish reason that is neither
  \<^verbatim>\<open>tool_calls\<close> nor \<^verbatim>\<open>stop\<close>. Then the round is the final response: batch mode returns
  the assistant's content with the steps and actions of \<open>stk\<close> and the usage accumulated
  including this round, and the final state differs from \<open>stk\<close> in the usage, the recorded
  completion and the call count only, so no call was dispatched and no message appended; the
  generator yields one response event with that content and usage after the events it had
  yielded, and nothing else.
\<close>

theorem other_finish_reason_is_final:
  "(agent_rounds env ctx k st0 = Inr (rk, stk) \<and> rr_warning rk \<noteq> None
      \<and> create_chat_completion env (provider_calls stk) (llm_messages stk) = Inr c
      \<and> requested_calls c \<noteq> [] \<and> c_finish_reason c \<notin> {''tool_calls'', ''stop''}
    \<longrightarrow> agent_rounds env ctx (k + Suc m) st0
          = Inr (\<lparr>rr_response = final_content c, rr_actions = actions stk, rr_steps = steps stk,
                   rr_usage = add_usage (total_usage stk) (c_usage c),
                   rr_error = False, rr_warning = None\<rparr>,
                 stk\<lparr>total_usage := add_usage (total_usage stk) (c_usage c),
                     received := received stk @ [c],
                     provider_calls := Suc (provider_calls stk)\<rparr>))
   \<and> (stream_rounds env ctx k s0
          = (sk\<lparr>s_events := s_events sk @ [budget_event (s_total_usage sk)]\<rparr>, None)
      \<and> create_chat_completion env (s_provider_calls sk) (s_llm_messages sk) = Inr c
      \<and> requested_calls c \<noteq> [] \<and> c_finish_reason c \<notin> {''tool_calls'', ''stop''}
    \<longrightarrow> stream_rounds env ctx (k + Suc m) s0
          = (sk\<lparr>s_total_usage := add_usage (s_total_usage sk) (c_usage c),
                s_received := s_received sk @ [c],
                s_provider_calls := Suc (s_provider_calls sk),
                s_events := s_events sk
                  @ [ResponseEvent \<lparr>rd_response = final_content c,
                                    rd_usage = add_usage (s_total_usage sk) (c_usage c),
                                    rd_warning = None\<rparr>]\<rparr>, None))"
proof (intro conjI impI)
  assume h: "agent_rounds env ctx k st0 = Inr (rk, stk) \<and> rr_warning rk \<noteq> None
      \<and> create_chat_completion env (provider_calls stk) (llm_messages stk) = Inr c
      \<and> requested_calls c \<noteq> [] \<and> c_finish_reason c \<notin> {''tool_calls'', ''stop''}"
  then have "agent_rounds env ctx (k + Suc m) st0 = agent_rounds env ctx (Suc m) stk"
    using agent_rounds_extend by blast
  moreover from h have "\<not> is_tool_round c"
    by (simp add: is_tool_round_def)
  ultimately show "agent_rounds env ctx (k + Suc m) st0
          = Inr (\<lparr>rr_response = final_content c, rr_actions = actions stk, rr_steps = steps stk,
                   rr_usage = add_usage (total_usage stk) (c_usage c),
                   rr_error = False, rr_warning = None\<rparr>,
                 stk\<lparr>total_usage := add_usage (total_usage stk) (c_usage c),
                     received := received stk @ [c],
                     provider_calls := Suc (provider_calls stk)\<rparr>)"
    using h by (simp add: final_result_def)
next
  assume h: "stream_rounds env ctx k s0
          = (sk\<lparr>s_events := s_events sk @ [budget_event (s_total_usage sk)]\<rparr>, None)
      \<and> create_chat_completion env (s_provider_calls sk) (s_llm_messages sk) = Inr c
      \<and> requested_calls c \<noteq> [] \<and> c_finish_reason c \<notin> {''tool_calls'', ''stop''}"
  then have "stream_rounds env ctx (k + Suc m) s0 = stream_rounds env ctx (Suc m) sk"
    using stream_rounds_extend by blast
  moreover from h have "\<not> is_tool_round c"
    by (simp add: is_tool_round_def)
  ultimately show "stream_rounds env ctx (k + Suc m) s0
          = (sk\<lparr>s_total_usage := add_usage (s_total_usage sk) (c_usage c),
                s_received := s_received sk @ [c],
                s_provider_calls := Suc (s_provider_calls sk),
                s_events := s_events sk
                  @ [ResponseEvent \<lparr>rd_response = final_content c,
                                    rd_usage = add_usage (s_total_usage sk) (c_usage c),
                                    rd_warning = None\<rparr>]\<rparr>, None)"
    using h by simp
qed

theorem other_finish_reason_is_final_witness:
  "agent_rounds (demo_env truncated_script) demo_ctx 1
       (initial_state ''You are an AI SQL assistant.'' demo_messages)
     = Inr (budget_result after_round_1, after_round_1)
   \<and> rr_warning (budget_result after_round_1) \<noteq> None
   \<and> create_chat_completion (demo_env truncated_script) (provider_calls after_round_1)
        (llm_messages after_round_1) = Inr truncated_completion
   \<and> requested_calls truncated_completion \<noteq> []
   \<and> c_finish_reason truncated_completion \<notin> {''tool_calls'', ''stop''}
   \<and> run_agent (demo_env truncated_script) (demo_cfg 10) demo_ctx demo_messages
       = Inr \<lparr>rr_response = PStr ''Let me look at the'', rr_actions = [],
              rr_steps = [list_schemas_step],
              rr_usage = \<lparr>prompt_tokens = 20, completion_tokens = 10, total_tokens = 30\<rparr>,
              rr_error = False, rr_warning = None\<rparr>
   \<and> stream_rounds (demo_env truncated_script) demo_ctx 1
        (initial_stream_state ''You are an AI SQL assistant.'' demo_messages)
       = (stream_after_round_1
            \<lparr>s_events := s_events stream_after_round_1
               @ [budget_event (s_total_usage stream_after_round_1)]\<rparr>, None)
   \<and> run_agent_stream (demo_env truncated_script) (demo_cfg 10) demo_ctx demo_messages
       = ([StepEvent list_schemas_step,
           ResponseEvent \<lparr>rd_response = PStr ''Let me look at the'',
                          rd_usage = \<lparr>prompt_tokens = 20, completion_tokens = 10,
                                      total_tokens = 30\<rparr>,
                          rd_warning = None\<rparr>], None)"
proof -
  let ?env = "demo_env truncated_script"
  let ?st0 = "initial_state ''You are an AI SQL assistant.'' demo_messages"
  let ?s0 = "initial_stream_state ''You are an AI SQL assistant.'' demo_messages"
  have a: "agent_rounds ?env demo_ctx 1 ?st0 = Inr (budget_result after_round_1, after_round_1)"
    by code_simp
  have b: "rr_warning (budget_result after_round_1) \<noteq> None"
    by (simp add: budget_result_def)
  have c: "create_chat_completion ?env (provider_calls after_round_1) (llm_messages after_round_1)
             = Inr truncated_completion"
    by code_simp
  have c': "requested_calls truncated_completion \<noteq> []"
      "c_finish_reason truncated_completion \<notin> {''tool_calls'', ''stop''}"
    by (simp_all add: truncated_completion_def requested_calls_def)
  have d: "stream_rounds ?env demo_ctx 1 ?s0
             = (stream_after_round_1
                  \<lparr>s_events := s_events stream_after_round_1
                     @ [budget_event (s_total_usage stream_after_round_1)]\<rparr>, None)"
    by code_simp
  have e: "create_chat_completion ?env (s_provider_calls stream_after_round_1)
             (s_llm_messages stream_after_round_1) = Inr truncated_completion"
    by code_simp
  note T = other_finish_reason_is_final
             [of ?env demo_ctx 1 ?st0 "budget_result after_round_1" after_round_1
                 truncated_completion 8 ?s0 stream_after_round_1]
  from T a b c c' have f: "agent_rounds ?env demo_ctx (1 + Suc 8) ?st0
          = Inr (\<lparr>rr_response = final_content truncated_completion,
                   rr_actions = actions after_round_1, rr_steps = steps after_round_1,
                   rr_usage = add_usage (total_usage after_round_1) (c_usage truncated_completion),
                   rr_error = False, rr_warning = None\<rparr>,
                 after_round_1\<lparr>total_usage := add_usage (total_usage after_round_1)
                                                (c_usage truncated_completion),
                     received := received after_round_1 @ [truncated_completion],
                     provider_calls := Suc (provider_calls after_round_1)\<rparr>)"
    by blast
  from T d e c' have g: "stream_rounds ?env demo_ctx (1 + Suc 8) ?s0
          = (stream_after_round_1
               \<lparr>s_total_usage := add_usage (s_total_usage stream_after_round_1)
                                   (c_usage truncated_completion),
                s_received := s_received stream_after_round_1 @ [truncated_completion],
                s_provider_calls := Suc (s_provider_calls stream_after_round_1),
                s_events := s_events stream_after_round_1
                  @ [ResponseEvent \<lparr>rd_response = final_content truncated_completion,
                                    rd_usage = add_usage (s_total_usage stream_after_round_1)
                                                 (c_usage truncated_completion),
                                    rd_warning = None\<rparr>]\<rparr>, None)"
    by blast
  have ten: "nat (max_tool_rounds (demo_cfg 10)) = 1 + Suc 8"
    "system_prompt (demo_cfg 10) = ''You are an AI SQL assistant.''"
    by (simp_all add: demo_cfg_def)
  have f': "run_agent ?env (demo_cfg 10) demo_ctx demo_messages
       = Inr \<lparr>rr_response = PStr ''Let me look at the'', rr_actions = [],
              rr_steps = [list_schemas_step],
              rr_usage = \<lparr>prompt_tokens = 20, completion_tokens = 10, total_tokens = 30\<rparr>,
              rr_error = False, rr_warning = None\<rparr>"
    unfolding run_agent_def run_agent_trace_def ten f
    by (simp add: after_round_1_def truncated_completion_def final_content_def add_usage_def
        field_or_zero_def)
  have g': "run_agent_stream ?env (demo_cfg 10) demo_ctx demo_messages
       = ([StepEvent list_schemas_step,
           ResponseEvent \<lparr>rd_response = PStr ''Let me look at the'',
                          rd_usage = \<lparr>prompt_tokens = 20, completion_tokens = 10,
                                      total_tokens = 30\<rparr>,
                          rd_warning = None\<rparr>], None)"
    unfolding run_agent_stream_def run_agent_stream_trace_def ten g
    by (simp add: stream_after_round_1_def after_round_1_def truncated_completion_def
        final_content_def add_usage_def field_or_zero_def)
  from a b c c' d f' g' show ?thesis by blast
qed

end
